theory Spec2Isabelle
  imports Main
begin

section \<open>Errors and text helpers\<close>

text \<open>
  The error codes of \<^verbatim>\<open>utils/error\<close> that the query builder and the MySQL adapter raise.
  \<open>TypeError\<close> stands for the JavaScript runtime failure of calling a method on a value
  that does not have it (\<^verbatim>\<open>v.map\<close> on a non-array, \<^verbatim>\<open>query.toQueryOptions\<close> on a
  non-query); \<open>EnforceError\<close> for a failed \<^verbatim>\<open>enforce\<close> check.
\<close>

datatype error =
    ForbiddenOperation
  | InvalidObjectKey
  | MissingConfiguration
  | EnforceError
  | TypeError

text \<open>\<^verbatim>\<open>Array.prototype.join\<close> on an array of strings.\<close>

fun join :: "string \<Rightarrow> string list \<Rightarrow> string" where
  "join sep [] = []"
| "join sep [s] = s"
| "join sep (s # t # ss) = s @ sep @ join sep (t # ss)"

text \<open>Decimal rendering of an integer, as a template literal renders a number.\<close>

fun string_of_nat :: "nat \<Rightarrow> string" where
  "string_of_nat n =
     (if n < 10 then [''0123456789'' ! n]
      else string_of_nat (n div 10) @ [''0123456789'' ! (n mod 10)])"

declare string_of_nat.simps [simp del]

definition string_of_int :: "int \<Rightarrow> string" where
  "string_of_int i = (if i < 0 then ''-'' @ string_of_nat (nat (- i)) else string_of_nat (nat i))"

section \<open>Data model\<close>

text \<open>
  The constraint kinds of the \<^verbatim>\<open>Constraints\<close> enumeration (\<^verbatim>\<open>utils/constraint-map\<close>).
  The enumeration's string values are not part of the source, so a kind is a constructor;
  \<open>Unlisted s\<close> is any other string, which the generic \<^verbatim>\<open>where\<close> accepts as a kind.
\<close>

datatype constraint =
    EqualTo | NotEqualTo | GreaterThan | GreaterThanOrEqualTo | LessThan | LessThanOrEqualTo
  | Exists | ContainedIn | NotContainedIn | ContainedInOrDoesNotExist
  | StartsWith | EndsWith | Contains | ContainsEither | ContainsAll
  | FoundIn | FoundInEither | FoundInAll | NotFoundIn | NotFoundInEither | NotFoundInAll
  | Unlisted string

text \<open>
  What the adapter reads of a \<^verbatim>\<open>Relation\<close>: \<^verbatim>\<open>relation.class.source\<close>,
  \<^verbatim>\<open>relation.parentClassKey()\<close> and \<^verbatim>\<open>relation.sourceClassKey(alias)\<close>.
\<close>

record relation =
  rel_class_source :: string
  rel_parentClassKey :: string
  rel_sourceClassKey :: "string \<Rightarrow> string"

text \<open>
  What the builder reads of a class: \<^verbatim>\<open>className\<close>, \<^verbatim>\<open>source\<close>, the keys for which
  \<^verbatim>\<open>has\<close> answers true, and the \<^verbatim>\<open>keys\<close>, \<^verbatim>\<open>timestamps\<close> and \<^verbatim>\<open>relations\<close> of its
  definition.
\<close>

record class_type =
  className :: string
  source :: string
  declared :: "string list"
  def_keys :: "string list"
  def_timestamps :: "string list"
  def_relations :: "(string \<times> relation) list"

text \<open>
  Modelled from the spec: \<^verbatim>\<open>Class.has\<close> is not part of the source. The spec has every
  builder call validate that the referenced key exists in the target schema, so \<open>has\<close> is
  membership in the keys that the class answers for.
\<close>

definition has :: "class_type \<Rightarrow> string \<Rightarrow> bool" where
  "has c key = (key \<in> set (declared c))"

text \<open>
  JavaScript values (\<^verbatim>\<open>any\<close>), and the fields of a \<^verbatim>\<open>Query\<close>. A number is an integer here;
  \<open>VDate\<close> holds the ISO string of a \<^verbatim>\<open>Date\<close>. The constraint map of a query is an ordered
  mapping from key to the list of its (kind, value) entries. The \<open>q_sorting\<close> field is a
  reference to an array in the store (see below): the array object, not its contents.
\<close>

datatype val =
    VUndefined
  | VNull
  | VBool bool
  | VNum int
  | VStr string
  | VDate string
  | VArr "val list"
  | VObj "(string \<times> val) list"
  | VQuery query
and query =
    Query (q_classType: class_type)
          (q_selection: "string list")
          (q_included: "string list")
          (q_constraints: "(string \<times> (constraint \<times> val) list) list")
          (q_sorting: nat)
          (q_skipped: nat)
          (q_limitation: nat)

type_synonym constraint_map = "(string \<times> (constraint \<times> val) list) list"
type_synonym key_map = "(string \<times> val) list"

text \<open>
  The collaborators that the source imports and that are not part of it, taken as
  parameters: the low-level client's two escaping functions, \<^verbatim>\<open>CompoundKey\<close>,
  the static key functions of \<^verbatim>\<open>Relation\<close>, \<^verbatim>\<open>toDatabaseDate\<close>, the functions of
  \<^verbatim>\<open>query-mapper\<close>, the constants of \<^verbatim>\<open>utils/constants\<close> and the package version.
  \<open>constraintKey\<close> is the renaming of a constraint key that \<^verbatim>\<open>getConstraintsFrom\<close> applies.
\<close>

record deps =
  client_escapeKey :: "string \<Rightarrow> bool \<Rightarrow> string"
  client_escape :: "val \<Rightarrow> string"
  CompoundKey_isUsedBy :: "string \<Rightarrow> bool"
  CompoundKey_from :: "string \<Rightarrow> string list"
  Relation_isUsedBy :: "string \<Rightarrow> bool"
  Relation_parseKey :: "string \<Rightarrow> string \<times> string"
  toDatabaseDate :: "string \<Rightarrow> string"
  Date_toString :: "string \<Rightarrow> string"
  getColumnsFrom :: "string \<Rightarrow> string list \<Rightarrow> (string \<times> relation) list \<Rightarrow> (string \<times> string) list"
  getRelationsFrom :: "string list \<Rightarrow> (string \<times> relation) list \<Rightarrow> (string \<times> relation) list"
  constraintKey :: "string \<Rightarrow> string \<Rightarrow> string"
  getSortingFrom :: "string \<Rightarrow> string list \<Rightarrow> string list"
  InternalKeys_Id :: string
  InternalId :: string
  CreatedAt :: string
  UpdatedAt :: string
  DeletedAt :: string
  Defaults_Query_Skip :: nat
  Defaults_Query_Limit :: nat
  version :: string

subsection \<open>KeyMap\<close>

text \<open>
  Modelled from the spec: \<^verbatim>\<open>utils/key-map\<close> is not part of the source. The spec gives a
  KeyMap as an ordered sequence of (key, value) pairs with unique keys, where \<^verbatim>\<open>set\<close> inserts
  or overwrites (keeping the original position on overwrite), \<^verbatim>\<open>get\<close> looks a key up, and
  \<^verbatim>\<open>keys\<close>, \<^verbatim>\<open>values\<close> and \<^verbatim>\<open>toArray\<close> enumerate in order.
\<close>

fun km_set :: "key_map \<Rightarrow> string \<Rightarrow> val \<Rightarrow> key_map" where
  "km_set [] k v = [(k, v)]"
| "km_set ((k', v') # m) k v = (if k' = k then (k, v) # m else (k', v') # km_set m k v)"

definition km_get :: "key_map \<Rightarrow> string \<Rightarrow> val option" where
  "km_get m k = map_of m k"

definition km_keys :: "key_map \<Rightarrow> string list" where
  "km_keys m = map fst m"

definition km_values :: "key_map \<Rightarrow> val list" where
  "km_values m = map snd m"

subsection \<open>ConstraintMap and the sorting arrays\<close>

text \<open>
  Modelled from the spec: \<^verbatim>\<open>utils/constraint-map\<close> is not part of the source. The spec gives
  a ConstraintMap as an ordered mapping from key to the ordered list of its entries, where
  every \<^verbatim>\<open>set\<close> appends and nothing is deduplicated; \<^verbatim>\<open>toArray\<close> lists, per key, the
  entries \<^verbatim>\<open>{key, constraint, value}\<close> that the adapter reads.
\<close>

fun cm_set :: "constraint_map \<Rightarrow> string \<Rightarrow> constraint \<Rightarrow> val \<Rightarrow> constraint_map" where
  "cm_set [] key c v = [(key, [(c, v)])]"
| "cm_set ((k', cs) # m) key c v =
     (if k' = key then (k', cs @ [(c, v)]) # m else (k', cs) # cm_set m key c v)"

definition cm_toArray :: "constraint_map \<Rightarrow> (string \<times> constraint \<times> val) list list" where
  "cm_toArray m = map (\<lambda>(key, cs). map (\<lambda>(c, v). (key, c, v)) cs) m"

text \<open>
  The arrays that queries push sort tokens onto live in a store, addressed by reference.
  \<^verbatim>\<open>Defaults.Query.Sort\<close> is one array of \<^verbatim>\<open>utils/constants\<close>; its contents are whatever
  the store holds at its address.
\<close>

type_synonym store = "nat \<Rightarrow> string list"

definition Defaults_Query_Sort :: nat where
  "Defaults_Query_Sort = 0"

section \<open>The query builder (features/orm/query.ts)\<close>

text \<open>
  The field initialisers and the constructor: \<^verbatim>\<open>selection\<close> and \<^verbatim>\<open>included\<close> are fresh
  empty arrays and \<^verbatim>\<open>constraints\<close> a fresh map, while \<^verbatim>\<open>sorting\<close> is assigned the array
  \<^verbatim>\<open>Defaults.Query.Sort\<close> itself.
\<close>

definition new_Query :: "deps \<Rightarrow> class_type \<Rightarrow> query" where
  "new_Query x classType =
     Query classType [] [] [] Defaults_Query_Sort (Defaults_Query_Skip x) (Defaults_Query_Limit x)"

text \<open>Assignments to one field of a query.\<close>

definition with_selection :: "query \<Rightarrow> string list \<Rightarrow> query" where
  "with_selection q s =
     Query (q_classType q) s (q_included q) (q_constraints q) (q_sorting q) (q_skipped q) (q_limitation q)"

definition with_included :: "query \<Rightarrow> string list \<Rightarrow> query" where
  "with_included q s =
     Query (q_classType q) (q_selection q) s (q_constraints q) (q_sorting q) (q_skipped q) (q_limitation q)"

definition with_constraints :: "query \<Rightarrow> constraint_map \<Rightarrow> query" where
  "with_constraints q cm =
     Query (q_classType q) (q_selection q) (q_included q) cm (q_sorting q) (q_skipped q) (q_limitation q)"

definition with_skipped :: "query \<Rightarrow> nat \<Rightarrow> query" where
  "with_skipped q n =
     Query (q_classType q) (q_selection q) (q_included q) (q_constraints q) (q_sorting q) n (q_limitation q)"

definition with_limitation :: "query \<Rightarrow> nat \<Rightarrow> query" where
  "with_limitation q n =
     Query (q_classType q) (q_selection q) (q_included q) (q_constraints q) (q_sorting q) (q_skipped q) n"

text \<open>
  The private \<^verbatim>\<open>set\<close>. The key is a string by its type, so the \<^verbatim>\<open>enforce\<close> check passes.
  A builder method that throws returns \<open>Inl\<close> of the error (what it had assigned before
  throwing is not kept); otherwise \<open>Inr\<close> of the receiver after the call.
\<close>

definition set_constraint :: "deps \<Rightarrow> query \<Rightarrow> string \<Rightarrow> constraint \<Rightarrow> val \<Rightarrow> error + query" where
  "set_constraint x q key c v =
     (if \<not> has (q_classType q) key then Inl ForbiddenOperation
      else
        (let v' = (case v of VDate d \<Rightarrow> VStr (toDatabaseDate x d) | _ \<Rightarrow> v)
         in Inr (with_constraints q (cm_set (q_constraints q) key c v'))))"

definition bool_to_number :: "val \<Rightarrow> val" where
  "bool_to_number v = (case v of VBool b \<Rightarrow> VNum (if b then 1 else 0) | _ \<Rightarrow> v)"

definition equalTo :: "deps \<Rightarrow> query \<Rightarrow> string \<Rightarrow> val \<Rightarrow> error + query" where
  "equalTo x q key v = set_constraint x q key EqualTo (bool_to_number v)"

definition notEqualTo :: "deps \<Rightarrow> query \<Rightarrow> string \<Rightarrow> val \<Rightarrow> error + query" where
  "notEqualTo x q key v = set_constraint x q key NotEqualTo (bool_to_number v)"

definition greaterThan_q :: "deps \<Rightarrow> query \<Rightarrow> string \<Rightarrow> val \<Rightarrow> error + query" where
  "greaterThan_q x q key v = set_constraint x q key GreaterThan v"

definition greaterThanOrEqualTo :: "deps \<Rightarrow> query \<Rightarrow> string \<Rightarrow> val \<Rightarrow> error + query" where
  "greaterThanOrEqualTo x q key v = set_constraint x q key GreaterThanOrEqualTo v"

definition lessThan_q :: "deps \<Rightarrow> query \<Rightarrow> string \<Rightarrow> val \<Rightarrow> error + query" where
  "lessThan_q x q key v = set_constraint x q key LessThan v"

definition lessThanOrEqualTo :: "deps \<Rightarrow> query \<Rightarrow> string \<Rightarrow> val \<Rightarrow> error + query" where
  "lessThanOrEqualTo x q key v = set_constraint x q key LessThanOrEqualTo v"

definition exists_q :: "deps \<Rightarrow> query \<Rightarrow> string \<Rightarrow> error + query" where
  "exists_q x q key = set_constraint x q key Exists (VBool True)"

definition doesNotExist :: "deps \<Rightarrow> query \<Rightarrow> string \<Rightarrow> error + query" where
  "doesNotExist x q key = set_constraint x q key Exists (VBool False)"

definition containedIn :: "deps \<Rightarrow> query \<Rightarrow> string \<Rightarrow> val \<Rightarrow> error + query" where
  "containedIn x q key v = set_constraint x q key ContainedIn v"

definition notContainedIn :: "deps \<Rightarrow> query \<Rightarrow> string \<Rightarrow> val \<Rightarrow> error + query" where
  "notContainedIn x q key v = set_constraint x q key NotContainedIn v"

definition containedInOrDoesNotExist :: "deps \<Rightarrow> query \<Rightarrow> string \<Rightarrow> val \<Rightarrow> error + query" where
  "containedInOrDoesNotExist x q key v = set_constraint x q key ContainedInOrDoesNotExist v"

definition startsWith :: "deps \<Rightarrow> query \<Rightarrow> string \<Rightarrow> val \<Rightarrow> error + query" where
  "startsWith x q key v = set_constraint x q key StartsWith v"

definition endsWith :: "deps \<Rightarrow> query \<Rightarrow> string \<Rightarrow> val \<Rightarrow> error + query" where
  "endsWith x q key v = set_constraint x q key EndsWith v"

text \<open>
  An argument that is a string or an array of strings. The contains family joins an array
  of keys with \<^verbatim>\<open>|\<close> into one key before \<^verbatim>\<open>set\<close> sees it.
\<close>

datatype key_arg = OneKey string | ManyKeys "string list"

fun joined_key :: "key_arg \<Rightarrow> string" where
  "joined_key (OneKey key) = key"
| "joined_key (ManyKeys ks) = join ''|'' ks"

definition contains :: "deps \<Rightarrow> query \<Rightarrow> key_arg \<Rightarrow> val \<Rightarrow> error + query" where
  "contains x q key v = set_constraint x q (joined_key key) Contains v"

definition containsEither :: "deps \<Rightarrow> query \<Rightarrow> key_arg \<Rightarrow> val \<Rightarrow> error + query" where
  "containsEither x q key v = set_constraint x q (joined_key key) ContainsEither v"

definition containsAll :: "deps \<Rightarrow> query \<Rightarrow> key_arg \<Rightarrow> val \<Rightarrow> error + query" where
  "containsAll x q key v = set_constraint x q (joined_key key) ContainsAll v"

text \<open>
  \<^verbatim>\<open>select(...keys)\<close>, \<^verbatim>\<open>include(...keys)\<close>, \<^verbatim>\<open>sortBy(...keys)\<close> and
  \<^verbatim>\<open>sortByDescending(...keys)\<close> take their arguments as a rest array: the list of the call's
  arguments. When the first argument is an array it is the key list, otherwise the
  arguments are. An element of the key list that is not a string fails \<^verbatim>\<open>enforce\<close>.
\<close>

fun key_list :: "key_arg list \<Rightarrow> key_arg list" where
  "key_list (ManyKeys ks # keys) = map OneKey ks"
| "key_list keys = keys"

fun select_loop :: "query \<Rightarrow> key_arg list \<Rightarrow> error + query" where
  "select_loop q [] = Inr q"
| "select_loop q (ManyKeys ks # keyList) = Inl EnforceError"
| "select_loop q (OneKey key # keyList) =
     (if \<not> has (q_classType q) key then Inl InvalidObjectKey
      else select_loop (with_selection q (q_selection q @ [key])) keyList)"

definition select :: "query \<Rightarrow> key_arg list \<Rightarrow> error + query" where
  "select q keys =
     (if length keys = 0 then Inl MissingConfiguration
      else select_loop q (key_list keys))"

text \<open>
  In \<^verbatim>\<open>include\<close>, \<^verbatim>\<open>sortBy\<close> and \<^verbatim>\<open>sortByDescending\<close> the guard is \<^verbatim>\<open>!keys\<close>, which a
  rest array never satisfies, so these have no missing-configuration branch.
\<close>

fun include_loop :: "query \<Rightarrow> key_arg list \<Rightarrow> error + query" where
  "include_loop q [] = Inr q"
| "include_loop q (ManyKeys ks # keyList) = Inl EnforceError"
| "include_loop q (OneKey key # keyList) =
     (if \<not> has (q_classType q) key then Inl InvalidObjectKey
      else include_loop (with_included q (q_included q @ [key])) keyList)"

definition include_q :: "query \<Rightarrow> key_arg list \<Rightarrow> error + query" where
  "include_q q keys = include_loop q (key_list keys)"

text \<open>
  The sort methods push onto the array that \<^verbatim>\<open>this.sorting\<close> refers to; the query's own
  fields do not change, the store does.
\<close>

fun sortBy_loop :: "store \<Rightarrow> query \<Rightarrow> key_arg list \<Rightarrow> error + store" where
  "sortBy_loop h q [] = Inr h"
| "sortBy_loop h q (ManyKeys ks # keyList) = Inl EnforceError"
| "sortBy_loop h q (OneKey key # keyList) =
     (let rawKey = (case key of c # cs \<Rightarrow> if c = CHR ''-'' then cs else key | [] \<Rightarrow> key)
      in if \<not> has (q_classType q) rawKey then Inl InvalidObjectKey
         else sortBy_loop (h(q_sorting q := h (q_sorting q) @ [key])) q keyList)"

definition sortBy :: "store \<Rightarrow> query \<Rightarrow> key_arg list \<Rightarrow> error + store" where
  "sortBy h q keys = sortBy_loop h q (key_list keys)"

fun sortByDescending_loop :: "store \<Rightarrow> query \<Rightarrow> key_arg list \<Rightarrow> error + store" where
  "sortByDescending_loop h q [] = Inr h"
| "sortByDescending_loop h q (ManyKeys ks # keyList) = Inl EnforceError"
| "sortByDescending_loop h q (OneKey key # keyList) =
     (if \<not> has (q_classType q) key then Inl InvalidObjectKey
      else sortByDescending_loop (h(q_sorting q := h (q_sorting q) @ [''-'' @ key])) q keyList)"

definition sortByDescending :: "store \<Rightarrow> query \<Rightarrow> key_arg list \<Rightarrow> error + store" where
  "sortByDescending h q keys = sortByDescending_loop h q (key_list keys)"

text \<open>\<^verbatim>\<open>skip\<close> and \<^verbatim>\<open>limit\<close>: \<^verbatim>\<open>enforce\<close> wants a number that is not negative.\<close>

definition skip :: "query \<Rightarrow> int \<Rightarrow> error + query" where
  "skip q n = (if n < 0 then Inl EnforceError else Inr (with_skipped q (nat n)))"

definition limit :: "query \<Rightarrow> int \<Rightarrow> error + query" where
  "limit q n = (if n < 0 then Inl EnforceError else Inr (with_limitation q (nat n)))"

definition toSubquery :: "query \<Rightarrow> string \<Rightarrow> error + query" where
  "toSubquery q sel = select (with_selection q []) [OneKey sel]"

text \<open>
  The foundIn family narrows its sub-queries with \<^verbatim>\<open>toSubquery\<close> while the argument of
  \<^verbatim>\<open>set\<close> is evaluated, so before \<^verbatim>\<open>set\<close> checks the key. An item of the array forms is an
  object with one property: the select key and its query. The entry here holds the
  sub-query as a value, as it is after \<^verbatim>\<open>toSubquery\<close>; the section on queries as objects
  below has the entry hold the object.
\<close>

definition foundIn :: "deps \<Rightarrow> query \<Rightarrow> string \<Rightarrow> string \<Rightarrow> query \<Rightarrow> error + query" where
  "foundIn x q key sel v =
     (case toSubquery v sel of
        Inl e \<Rightarrow> Inl e
      | Inr sub \<Rightarrow> set_constraint x q key FoundIn (VQuery sub))"

fun toSubqueries :: "(string \<times> query) list \<Rightarrow> error + val list" where
  "toSubqueries [] = Inr []"
| "toSubqueries ((sel, qry) # items) =
     (case toSubquery qry sel of
        Inl e \<Rightarrow> Inl e
      | Inr sub \<Rightarrow>
          (case toSubqueries items of Inl e \<Rightarrow> Inl e | Inr subs \<Rightarrow> Inr (VQuery sub # subs)))"

definition set_subqueries ::
    "deps \<Rightarrow> query \<Rightarrow> string \<Rightarrow> constraint \<Rightarrow> (string \<times> query) list \<Rightarrow> error + query" where
  "set_subqueries x q key c v =
     (case toSubqueries v of
        Inl e \<Rightarrow> Inl e
      | Inr subs \<Rightarrow> set_constraint x q key c (VArr subs))"

definition foundInEither :: "deps \<Rightarrow> query \<Rightarrow> string \<Rightarrow> (string \<times> query) list \<Rightarrow> error + query" where
  "foundInEither x q key v = set_subqueries x q key FoundInEither v"

definition foundInAll :: "deps \<Rightarrow> query \<Rightarrow> string \<Rightarrow> (string \<times> query) list \<Rightarrow> error + query" where
  "foundInAll x q key v = set_subqueries x q key FoundInAll v"

definition notFoundIn :: "deps \<Rightarrow> query \<Rightarrow> string \<Rightarrow> string \<Rightarrow> query \<Rightarrow> error + query" where
  "notFoundIn x q key sel v =
     (case toSubquery v sel of
        Inl e \<Rightarrow> Inl e
      | Inr sub \<Rightarrow> set_constraint x q key NotFoundIn (VQuery sub))"

definition notFoundInEither :: "deps \<Rightarrow> query \<Rightarrow> string \<Rightarrow> (string \<times> query) list \<Rightarrow> error + query" where
  "notFoundInEither x q key v = set_subqueries x q key NotFoundInEither v"

definition notFoundInAll :: "deps \<Rightarrow> query \<Rightarrow> string \<Rightarrow> (string \<times> query) list \<Rightarrow> error + query" where
  "notFoundInAll x q key v = set_subqueries x q key NotFoundInAll v"

text \<open>The generic \<^verbatim>\<open>where\<close>: for each key, for each (kind, value) of its object, \<^verbatim>\<open>set\<close>.\<close>

fun where_inner :: "deps \<Rightarrow> query \<Rightarrow> string \<Rightarrow> (constraint \<times> val) list \<Rightarrow> error + query" where
  "where_inner x q key [] = Inr q"
| "where_inner x q key ((c, v) # constraintMap) =
     (case set_constraint x q key c v of
        Inl e \<Rightarrow> Inl e
      | Inr q' \<Rightarrow> where_inner x q' key constraintMap)"

fun where_q :: "deps \<Rightarrow> query \<Rightarrow> (string \<times> (constraint \<times> val) list) list \<Rightarrow> error + query" where
  "where_q x q [] = Inr q"
| "where_q x q ((key, constraintMap) # rest) =
     (case where_inner x q key constraintMap of
        Inl e \<Rightarrow> Inl e
      | Inr q' \<Rightarrow> where_q x q' rest)"

definition getSelection :: "deps \<Rightarrow> query \<Rightarrow> string list" where
  "getSelection x q =
     (let defaultSelect = [InternalKeys_Id x] @ def_keys (q_classType q) @ def_timestamps (q_classType q);
          selected = (if length (q_selection q) > 0 then q_selection q else defaultSelect)
      in selected @ q_included q)"

text \<open>
  Modelled from the spec: \<^verbatim>\<open>getConstraintsFrom\<close> of \<^verbatim>\<open>query-mapper\<close> is not part of the
  source. The spec's QueryOptions carries the query's ConstraintMap to the compiler, the
  keys resolved for the target table; so it is a renaming of the keys by \<open>constraintKey\<close>
  that leaves every kind and value as the builder stored it.
\<close>

definition getConstraintsFrom :: "deps \<Rightarrow> string \<Rightarrow> constraint_map \<Rightarrow> constraint_map" where
  "getConstraintsFrom x cn m = map (\<lambda>(key, cs). (constraintKey x cn key, cs)) m"

record query_options =
  qo_source :: "string \<times> string"
  qo_columns :: "(string \<times> string) list"
  qo_relations :: "(string \<times> relation) list"
  qo_constraints :: constraint_map
  qo_sorting :: "string list"
  qo_skipped :: nat
  qo_limitation :: nat

definition toQueryOptions :: "deps \<Rightarrow> store \<Rightarrow> query \<Rightarrow> query_options" where
  "toQueryOptions x h q =
     (let cn = className (q_classType q);
          relationsMap = def_relations (q_classType q);
          sel = getSelection x q
      in \<lparr> qo_source = (source (q_classType q), cn),
           qo_columns = getColumnsFrom x cn sel relationsMap,
           qo_relations = getRelationsFrom x sel relationsMap,
           qo_constraints = getConstraintsFrom x cn (q_constraints q),
           qo_sorting = getSortingFrom x cn (h (q_sorting q)),
           qo_skipped = q_skipped q,
           qo_limitation = q_limitation q \<rparr>)"

section \<open>The MySQL adapter (adapters/database/mysql/index.ts)\<close>

subsection \<open>Values in template literals\<close>

text \<open>JavaScript's conversion of a value to a string, as a template literal applies it.\<close>

fun toStr :: "deps \<Rightarrow> val \<Rightarrow> string" where
  "toStr x VUndefined = ''undefined''"
| "toStr x VNull = ''null''"
| "toStr x (VBool b) = (if b then ''true'' else ''false'')"
| "toStr x (VNum n) = string_of_int n"
| "toStr x (VStr s) = s"
| "toStr x (VDate d) = Date_toString x d"
| "toStr x (VArr vs) =
     join '','' (map (\<lambda>v. case v of VUndefined \<Rightarrow> [] | VNull \<Rightarrow> [] | _ \<Rightarrow> toStr x v) vs)"
| "toStr x (VObj ps) = ''[object Object]''"
| "toStr x (VQuery q) = ''[object Object]''"

text \<open>Truthiness, as the conditional operator tests it.\<close>

fun truthy :: "val \<Rightarrow> bool" where
  "truthy VUndefined = False"
| "truthy VNull = False"
| "truthy (VBool b) = b"
| "truthy (VNum n) = (n \<noteq> 0)"
| "truthy (VStr s) = (s \<noteq> [])"
| "truthy _ = True"

subsection \<open>Escaping\<close>

text \<open>
  \<^verbatim>\<open>escapeKey\<close>: a compound key becomes \<^verbatim>\<open>CONCAT(...)\<close> over its escaped parts (an array
  in a template literal is joined with commas), any other key goes to the client.
\<close>

definition escapeKey :: "deps \<Rightarrow> string \<Rightarrow> bool \<Rightarrow> string" where
  "escapeKey x key useRaw =
     (if CompoundKey_isUsedBy x key
      then ''CONCAT('' @ join '','' (map (\<lambda>k. client_escapeKey x k False) (CompoundKey_from x key)) @ '')''
      else client_escapeKey x key useRaw)"

text \<open>
  \<^verbatim>\<open>regularEscape\<close> hands the value to the client. The \<^verbatim>\<open>Increment\<close> and \<^verbatim>\<open>JsonAction\<close>
  wrappers, which it prepares first, are classes outside the source and are not among the
  values here.
\<close>

definition regularEscape :: "deps \<Rightarrow> val \<Rightarrow> string" where
  "regularEscape x v = client_escape x v"

subsection \<open>The constraint table\<close>

text \<open>
  A fragment generator of the table is a template literal over the escaped key \<^verbatim>\<open>k\<close> and
  the value \<^verbatim>\<open>v\<close>. Its result is kept as the sequence of the template's pieces: literal
  text, an interpolation of \<^verbatim>\<open>k\<close>, an interpolation of \<^verbatim>\<open>this.regularEscape(...)\<close> and an
  interpolation of \<^verbatim>\<open>this.subqueryEscape(...)\<close>. \<open>render\<close> below turns the pieces into the
  SQL text.
\<close>

datatype part = Text string | K | Esc val | Sub val

fun join_parts :: "part list \<Rightarrow> part list list \<Rightarrow> part list" where
  "join_parts sep [] = []"
| "join_parts sep [p] = p"
| "join_parts sep (p # p' # ps) = p @ sep @ join_parts sep (p' # ps)"

text \<open>\<^verbatim>\<open>collectionEscape\<close>; calling \<^verbatim>\<open>map\<close> on a value that is not an array is a TypeError.\<close>

definition collectionEscape :: "val \<Rightarrow> error + part list" where
  "collectionEscape v =
     (case v of
        VArr items \<Rightarrow> Inr (join_parts [Text '', ''] (map (\<lambda>item. [Esc item]) items))
      | _ \<Rightarrow> Inl TypeError)"

text \<open>The shape \<^verbatim>\<open>(${v.map(f).join(sep)})\<close> of the five group entries.\<close>

definition map_items :: "val \<Rightarrow> (val \<Rightarrow> part list) \<Rightarrow> part list \<Rightarrow> error + part list" where
  "map_items v f sep =
     (case v of
        VArr items \<Rightarrow> Inr ([Text ''(''] @ join_parts sep (map f items) @ [Text '')''])
      | _ \<Rightarrow> Inl TypeError)"

text \<open>
  The private \<^verbatim>\<open>constraints\<close> table, entry by entry. It has no entry for
  \<open>NotFoundInAll\<close>. A kind that is not a value of the enumeration has none either (the
  names of the properties that every JavaScript object inherits are left aside).
\<close>

fun constraints :: "deps \<Rightarrow> constraint \<Rightarrow> (val \<Rightarrow> error + part list) option" where
  "constraints x EqualTo = Some (\<lambda>v. Inr [K, Text '' = '', Esc v])"
| "constraints x NotEqualTo = Some (\<lambda>v. Inr [K, Text '' <> '', Esc v])"
| "constraints x GreaterThan = Some (\<lambda>v. Inr [K, Text '' > '', Esc v])"
| "constraints x GreaterThanOrEqualTo = Some (\<lambda>v. Inr [K, Text '' >= '', Esc v])"
| "constraints x LessThan = Some (\<lambda>v. Inr [K, Text '' < '', Esc v])"
| "constraints x LessThanOrEqualTo = Some (\<lambda>v. Inr [K, Text '' <= '', Esc v])"
| "constraints x Exists =
     Some (\<lambda>v. Inr [K, Text '' '', Text (if truthy v then ''IS NOT NULL'' else ''IS NULL'')])"
| "constraints x ContainedIn =
     Some (\<lambda>v. case collectionEscape v of
                 Inl e \<Rightarrow> Inl e
               | Inr ps \<Rightarrow> Inr ([K, Text '' IN (''] @ ps @ [Text '')'']))"
| "constraints x NotContainedIn =
     Some (\<lambda>v. case collectionEscape v of
                 Inl e \<Rightarrow> Inl e
               | Inr ps \<Rightarrow> Inr ([K, Text '' NOT IN (''] @ ps @ [Text '')'']))"
| "constraints x ContainedInOrDoesNotExist =
     Some (\<lambda>v. case collectionEscape v of
                 Inl e \<Rightarrow> Inl e
               | Inr ps \<Rightarrow>
                   Inr ([Text ''('', K, Text '' IS NULL OR '', K, Text '' IN (''] @ ps @ [Text ''))'']))"
| "constraints x StartsWith = Some (\<lambda>v. Inr [K, Text '' LIKE '', Esc (VStr (toStr x v @ ''%''))])"
| "constraints x EndsWith = Some (\<lambda>v. Inr [K, Text '' LIKE '', Esc (VStr (''%'' @ toStr x v))])"
| "constraints x Contains =
     Some (\<lambda>v. Inr [K, Text '' LIKE '', Esc (VStr (''%'' @ toStr x v @ ''%''))])"
| "constraints x ContainsEither =
     Some (\<lambda>v. map_items v (\<lambda>i. [K, Text '' LIKE '', Esc (VStr (''%'' @ toStr x i @ ''%''))])
                 [Text '' OR ''])"
| "constraints x ContainsAll =
     Some (\<lambda>v. map_items v (\<lambda>i. [K, Text '' LIKE '', Esc (VStr (''%'' @ toStr x i @ ''%''))])
                 [Text '' AND ''])"
| "constraints x FoundIn = Some (\<lambda>v. Inr [K, Text '' IN ('', Sub v, Text '')''])"
| "constraints x FoundInEither =
     Some (\<lambda>v. map_items v (\<lambda>i. [K, Text '' IN ('', Sub i, Text '')'']) [Text '' OR ''])"
| "constraints x FoundInAll =
     Some (\<lambda>v. map_items v (\<lambda>i. [K, Text '' IN ('', Sub i, Text '')'']) [Text '' AND ''])"
| "constraints x NotFoundIn = Some (\<lambda>v. Inr [K, Text '' NOT IN ('', Sub v, Text '')''])"
| "constraints x NotFoundInEither =
     Some (\<lambda>v. map_items v (\<lambda>i. [K, Text '' NOT IN ('', Sub i, Text '')'']) [Text '' AND ''])"
| "constraints x NotFoundInAll = None"
| "constraints x (Unlisted s) = None"

text \<open>The fragment of a kind for a value: the table's entry, when it has one, applied.\<close>

definition fragment :: "deps \<Rightarrow> constraint \<Rightarrow> val \<Rightarrow> (error + part list) option" where
  "fragment x c v = (case constraints x c of None \<Rightarrow> None | Some g \<Rightarrow> Some (g v))"

text \<open>
  What a fragment holds: how often the escaped key, the values handed to
  \<^verbatim>\<open>regularEscape\<close>, and the values handed to \<^verbatim>\<open>subqueryEscape\<close>, in order.
\<close>

fun key_count :: "part list \<Rightarrow> nat" where
  "key_count [] = 0"
| "key_count (K # ps) = Suc (key_count ps)"
| "key_count (p # ps) = key_count ps"

fun escaped_values :: "part list \<Rightarrow> val list" where
  "escaped_values [] = []"
| "escaped_values (Esc v # ps) = v # escaped_values ps"
| "escaped_values (p # ps) = escaped_values ps"

fun subquery_values :: "part list \<Rightarrow> val list" where
  "subquery_values [] = []"
| "subquery_values (Sub v # ps) = v # subquery_values ps"
| "subquery_values (p # ps) = subquery_values ps"

subsection \<open>Compiling a query\<close>

text \<open>
  The flattening of \<^verbatim>\<open>constraints.toArray()\<close> that \<^verbatim>\<open>getFindClause\<close> performs with
  \<^verbatim>\<open>reduce\<close>.
\<close>

definition cm_entries :: "constraint_map \<Rightarrow> (string \<times> constraint \<times> val) list" where
  "cm_entries m = concat (cm_toArray m)"

text \<open>
  Measures for the recursion of the compiler: a sub-query is compiled by the same
  functions that compile the query holding it, and each level is smaller.
\<close>

fun part_weight :: "part \<Rightarrow> nat" where
  "part_weight (Sub v) = size v"
| "part_weight _ = 0"

fun parts_weight :: "part list \<Rightarrow> nat" where
  "parts_weight [] = 0"
| "parts_weight (p # ps) = part_weight p + parts_weight ps"

lemma parts_weight_append: "parts_weight (ps @ ps') = parts_weight ps + parts_weight ps'"
  by (induction ps) auto

definition entries_weight :: "(string \<times> constraint \<times> val) list \<Rightarrow> nat" where
  "entries_weight es = sum_list (map (\<lambda>(key, c, v). Suc (size v)) es)"

definition fragment_length :: "deps \<Rightarrow> constraint \<Rightarrow> val \<Rightarrow> nat" where
  "fragment_length x c v =
     (case constraints x c of
        None \<Rightarrow> 0
      | Some g \<Rightarrow> (case g v of Inl e \<Rightarrow> 0 | Inr ps \<Rightarrow> length ps))"

lemma parts_weight_join:
  "parts_weight (join_parts sep pss) \<le> sum_list (map parts_weight pss) + length pss * parts_weight sep"
  by (induction sep pss rule: join_parts.induct) (auto simp: parts_weight_append)

lemma parts_weight_collection: "collectionEscape v = Inr ps \<Longrightarrow> parts_weight ps = 0"
proof -
  have "parts_weight (join_parts [Text '', ''] (map (\<lambda>item. [Esc item]) items)) = 0" for items
    by (induction items rule: induct_list012) (auto simp: parts_weight_append)
  then show "collectionEscape v = Inr ps \<Longrightarrow> parts_weight ps = 0"
    by (auto simp: collectionEscape_def split: val.splits)
qed

lemma parts_weight_items:
  assumes "map_items v f sep = Inr ps" and "parts_weight sep = 0"
    and "\<And>i. parts_weight (f i) \<le> size i"
  shows "parts_weight ps \<le> size v"
proof -
  from assms(1) obtain items where v: "v = VArr items"
    and ps: "ps = [Text ''(''] @ join_parts sep (map f items) @ [Text '')'']"
    by (auto simp: map_items_def split: val.splits)
  have "sum_list (map parts_weight (map f items)) \<le> size_list size items"
    using assms(3) by (induction items) (auto simp: add_le_mono intro: le_SucI)
  with parts_weight_join [of sep "map f items"] assms(2) have "parts_weight (join_parts sep (map f items)) \<le> size_list size items"
    by simp
  then show ?thesis
    using v ps by (simp add: parts_weight_append)
qed

lemma fragment_weight:
  assumes "constraints x c = Some g" and "g v = Inr ps"
  shows "parts_weight ps \<le> size v"
proof -
  have items: "map_items v f sep = Inr ps \<Longrightarrow> parts_weight sep = 0
        \<Longrightarrow> (\<And>i. parts_weight (f i) \<le> size i) \<Longrightarrow> parts_weight ps \<le> size v" for f sep
    by (rule parts_weight_items)
  show ?thesis
  proof (cases c)
    case FoundInEither
    with assms show ?thesis by (auto intro!: items)
  next
    case FoundInAll
    with assms show ?thesis by (auto intro!: items)
  next
    case NotFoundInEither
    with assms show ?thesis by (auto intro!: items)
  next
    case ContainsEither
    with assms show ?thesis by (auto intro!: items)
  next
    case ContainsAll
    with assms show ?thesis by (auto intro!: items)
  next
    case ContainedIn
    with assms show ?thesis
      by (auto simp: parts_weight_append dest!: parts_weight_collection split: sum.splits)
  next
    case NotContainedIn
    with assms show ?thesis
      by (auto simp: parts_weight_append dest!: parts_weight_collection split: sum.splits)
  next
    case ContainedInOrDoesNotExist
    with assms show ?thesis
      by (auto simp: parts_weight_append dest!: parts_weight_collection split: sum.splits)
  qed (use assms in auto)
qed

lemma entries_weight_renamed:
  "entries_weight (cm_entries (getConstraintsFrom x cn m)) = entries_weight (cm_entries m)"
  by (induction m) (auto simp: entries_weight_def cm_entries_def cm_toArray_def getConstraintsFrom_def
        comp_def case_prod_beta)

lemma entries_weight_size:
  "entries_weight (cm_entries m)
     \<le> size_list (size_prod (\<lambda>x. 0) (size_list (size_prod (\<lambda>x. 0) size))) m"
proof (induction m)
  case Nil
  then show ?case by (simp add: entries_weight_def cm_entries_def cm_toArray_def)
next
  case (Cons p m)
  obtain key cs where p: "p = (key, cs)" by (cases p)
  have "sum_list (map (\<lambda>(key, c, v). Suc (size v)) (map (\<lambda>(c, v). (key, c, v)) cs))
          \<le> size_list (size_prod (\<lambda>x. 0) size) cs"
    by (induction cs) auto
  with Cons p show ?case
    by (simp add: entries_weight_def cm_entries_def cm_toArray_def)
qed


text \<open>
  \<^verbatim>\<open>parseConstraint\<close>, \<^verbatim>\<open>subqueryEscape\<close> and \<^verbatim>\<open>getFindClause\<close>, with \<open>render\<close> for the
  evaluation of a fragment's template (left to right, the first error wins) and
  \<open>parseConstraints\<close> for the \<^verbatim>\<open>map\<close> over the entries. \<^verbatim>\<open>getFindClause\<close> takes the four
  fields of its options object.
\<close>

function (sequential)
    render :: "deps \<Rightarrow> store \<Rightarrow> string \<Rightarrow> part list \<Rightarrow> error + string"
and subqueryEscape :: "deps \<Rightarrow> store \<Rightarrow> val \<Rightarrow> error + string"
and parseConstraint :: "deps \<Rightarrow> store \<Rightarrow> string \<Rightarrow> constraint \<Rightarrow> val \<Rightarrow> error + string"
and parseConstraints :: "deps \<Rightarrow> store \<Rightarrow> (string \<times> constraint \<times> val) list \<Rightarrow> error + string list"
and getFindClause ::
      "deps \<Rightarrow> store \<Rightarrow> string \<times> string \<Rightarrow> (string \<times> string) list \<Rightarrow> (string \<times> relation) list
         \<Rightarrow> constraint_map \<Rightarrow> error + string"
where
  "render x h k [] = Inr []"
| "render x h k (Text s # ps) =
     (case render x h k ps of Inl e \<Rightarrow> Inl e | Inr r \<Rightarrow> Inr (s @ r))"
| "render x h k (K # ps) =
     (case render x h k ps of Inl e \<Rightarrow> Inl e | Inr r \<Rightarrow> Inr (k @ r))"
| "render x h k (Esc v # ps) =
     (case render x h k ps of Inl e \<Rightarrow> Inl e | Inr r \<Rightarrow> Inr (regularEscape x v @ r))"
| "render x h k (Sub v # ps) =
     (case subqueryEscape x h v of
        Inl e \<Rightarrow> Inl e
      | Inr s \<Rightarrow> (case render x h k ps of Inl e \<Rightarrow> Inl e | Inr r \<Rightarrow> Inr (s @ r)))"
| "subqueryEscape x h (VQuery q) =
     (let opts = toQueryOptions x h q
      in getFindClause x h (qo_source opts) (qo_columns opts) (qo_relations opts) (qo_constraints opts))"
| "subqueryEscape x h v = Inl TypeError"
| "parseConstraint x h key c v =
     (let escapedKey = escapeKey x key False
      in case constraints x c of
           None \<Rightarrow> Inl ForbiddenOperation
         | Some g \<Rightarrow> (case g v of Inl e \<Rightarrow> Inl e | Inr ps \<Rightarrow> render x h escapedKey ps))"
| "parseConstraints x h [] = Inr []"
| "parseConstraints x h ((key, c, v) # es) =
     (case parseConstraint x h key c v of
        Inl e \<Rightarrow> Inl e
      | Inr w \<Rightarrow> (case parseConstraints x h es of Inl e \<Rightarrow> Inl e | Inr ws \<Rightarrow> Inr (w # ws)))"
| "getFindClause x h src columns relations cm =
     (let select_list =
            map (\<lambda>(key, alias). escapeKey x key False @ '' AS '' @ escapeKey x alias True) columns;
          from_clause = escapeKey x (fst src) False @ '' AS '' @ escapeKey x (snd src) False;
          joins =
            map (\<lambda>(alias, relation).
                   ''LEFT OUTER JOIN '' @ escapeKey x (rel_class_source relation) False
                   @ '' AS '' @ escapeKey x alias True
                   @ '' ON '' @ escapeKey x (rel_parentClassKey relation) False
                   @ '' = '' @ escapeKey x (rel_sourceClassKey relation (snd src)) False)
                relations
      in case parseConstraints x h (cm_entries cm) of
           Inl e \<Rightarrow> Inl e
         | Inr wheres \<Rightarrow>
             Inr (''SELECT '' @ join '', '' select_list @ '' FROM '' @ from_clause @ '' ''
                  @ join [CHR 0x0A] joins @ '' WHERE '' @ join '' AND '' wheres))"
  by pat_completeness auto


termination
proof (relation "measures
    [case_sum
       (case_sum (\<lambda>(x, h, k, ps). parts_weight ps) (\<lambda>(x, h, v). size v))
       (case_sum (\<lambda>(x, h, key, c, v). size v)
          (case_sum (\<lambda>(x, h, es). entries_weight es)
             (\<lambda>(x, h, src, columns, relations, cm). entries_weight (cm_entries cm)))),
     case_sum
       (case_sum (\<lambda>(x, h, k, ps). Suc (length ps)) (\<lambda>(x, h, v). 0))
       (case_sum (\<lambda>(x, h, key, c, v). Suc (Suc (fragment_length x c v)))
          (case_sum (\<lambda>(x, h, es). 0)
             (\<lambda>(x, h, src, columns, relations, cm). Suc 0)))]", goal_cases)
  case 1
  then show ?case by simp
next
  case 2
  then show ?case by simp
next
  case 3
  then show ?case by simp
next
  case 4
  then show ?case by simp
next
  case 5
  then show ?case by auto
next
  case 6
  then show ?case by auto
next
  case (7 x h q opts)
  have "entries_weight (cm_entries (qo_constraints opts)) < size (VQuery q)"
    using 7 entries_weight_size [of "q_constraints q"]
    by (cases q) (simp add: toQueryOptions_def Let_def entries_weight_renamed)
  then show ?case by simp
next
  case (8 x h key c v escapedKey g ps)
  from fragment_weight [OF 8(2) 8(3)] have "parts_weight ps \<le> size v" .
  then show ?case using 8 by (auto simp: fragment_length_def)
next
  case 9
  then show ?case by (simp add: entries_weight_def)
next
  case 10
  then show ?case by (simp add: entries_weight_def)
next
  case 11
  then show ?case by simp
qed

subsection \<open>Row mapping\<close>

text \<open>
  An object literal \<^verbatim>\<open>{ ...a, [k]: v }\<close>: the own properties of \<^verbatim>\<open>a\<close>, then \<^verbatim>\<open>k\<close> set to
  \<^verbatim>\<open>v\<close>. Spreading \<^verbatim>\<open>undefined\<close>, \<^verbatim>\<open>null\<close>, a boolean or a number gives no properties, a
  string or an array its indexed elements. A result row holds no \<^verbatim>\<open>Query\<close>, and a
  \<^verbatim>\<open>Date\<close> has no own properties. A new property is put last (JavaScript lists
  integer-like names first; the order of the properties is not used below).
\<close>

fun obj_put :: "(string \<times> val) list \<Rightarrow> string \<Rightarrow> val \<Rightarrow> (string \<times> val) list" where
  "obj_put [] k v = [(k, v)]"
| "obj_put ((k', v') # ps) k v = (if k' = k then (k, v) # ps else (k', v') # obj_put ps k v)"

fun spread :: "val option \<Rightarrow> (string \<times> val) list" where
  "spread (Some (VObj ps)) = ps"
| "spread (Some (VStr s)) = zip (map string_of_nat [0..<length s]) (map (\<lambda>c. VStr [c]) s)"
| "spread (Some (VArr vs)) = zip (map string_of_nat [0..<length vs]) vs"
| "spread _ = []"

text \<open>
  \<^verbatim>\<open>mapRows\<close>: the loop over \<^verbatim>\<open>Object.entries(row)\<close>, starting from an empty KeyMap. The
  row is the list of its entries; \<^verbatim>\<open>Relation.parseKey\<close> yields the relation name and the
  relation key.
\<close>

fun mapRows_loop :: "deps \<Rightarrow> key_map \<Rightarrow> (string \<times> val) list \<Rightarrow> key_map" where
  "mapRows_loop x keys [] = keys"
| "mapRows_loop x keys ((key, value) # row) =
     (if Relation_isUsedBy x key then
        (case Relation_parseKey x key of (relationName, relationKey) \<Rightarrow>
           (let relation = obj_put (spread (km_get keys relationName)) relationKey value
            in mapRows_loop x (km_set keys relationName (VObj relation)) row))
      else mapRows_loop x (km_set keys key value) row)"

definition mapRows :: "deps \<Rightarrow> (string \<times> val) list \<Rightarrow> key_map" where
  "mapRows x row = mapRows_loop x [] row"

subsection \<open>Writes\<close>

text \<open>
  The type \<^verbatim>\<open>ClassId\<close> (\<^verbatim>\<open>types/class\<close>) is not part of the source; an identifier is a
  number or a string, and a template literal renders either as it is.
\<close>

datatype class_id = IdNum int | IdStr string

fun class_id_text :: "class_id \<Rightarrow> string" where
  "class_id_text (IdNum n) = string_of_int n"
| "class_id_text (IdStr s) = s"

text \<open>
  \<^verbatim>\<open>create\<close>, \<^verbatim>\<open>update\<close> and \<^verbatim>\<open>destroy\<close>. \<open>now\<close> is the one reading of
  \<^verbatim>\<open>this.currentTimestamp\<close> that each makes. The result is the payload KeyMap after the call
  (the methods assign into their argument) and the script handed to \<^verbatim>\<open>client.query\<close>.
\<close>

definition create :: "deps \<Rightarrow> string \<Rightarrow> string \<Rightarrow> key_map \<Rightarrow> key_map \<times> string" where
  "create x now src keys =
     (let keys1 = km_set keys (CreatedAt x) (VStr now);
          keys2 = km_set keys1 (UpdatedAt x) (VStr now);
          sqlInputKeys = map (\<lambda>key. client_escapeKey x key False) (km_keys keys2);
          sqlInputValues = map (\<lambda>value. client_escape x value) (km_values keys2);
          createScript =
            ''INSERT INTO '' @ client_escapeKey x src False @ '' ('' @ join '', '' sqlInputKeys @ '') ''
            @ ''VALUES ('' @ join '', '' sqlInputValues @ ''); -- Warp Server '' @ version x
      in (keys2, createScript))"

definition update :: "deps \<Rightarrow> string \<Rightarrow> string \<Rightarrow> key_map \<Rightarrow> class_id \<Rightarrow> key_map \<times> string" where
  "update x now src keys ident =
     (let idKey = client_escapeKey x (InternalId x) False;
          keys1 = km_set keys (UpdatedAt x) (VStr now);
          sqlInput = map (\<lambda>(key, value). client_escapeKey x key False @ '' = '' @ client_escape x value) keys1;
          updateScript =
            ''UPDATE '' @ client_escapeKey x src False @ '' SET '' @ join '', '' sqlInput
            @ '' WHERE '' @ idKey @ '' = '' @ class_id_text ident @ ''; -- Warp Server '' @ version x
      in (keys1, updateScript))"

definition destroy :: "deps \<Rightarrow> string \<Rightarrow> string \<Rightarrow> key_map \<Rightarrow> class_id \<Rightarrow> key_map \<times> string" where
  "destroy x now src keys ident =
     (let idKey = client_escapeKey x (InternalId x) False;
          keys1 = km_set keys (UpdatedAt x) (VStr now);
          keys2 = km_set keys1 (DeletedAt x) (VStr now);
          sqlInput = map (\<lambda>(key, value). client_escapeKey x key False @ '' = '' @ client_escape x value) keys2;
          destroyScript =
            ''UPDATE '' @ client_escapeKey x src False @ '' SET '' @ join '', '' sqlInput
            @ '' WHERE '' @ idKey @ '' = '' @ class_id_text ident @ ''; -- Warp Server '' @ version x
      in (keys2, destroyScript))"

section \<open>Queries as objects\<close>

text \<open>
  The builder methods above return the receiver after the call as a value, and their entry
  for a sub-query holds the sub-query as it is after \<^verbatim>\<open>toSubquery\<close>. In the code the entry
  holds the query object itself, and the object is read when the outer query is compiled.
  This section has the queries as objects in a store, addressed by reference, for what
  depends on that: \<^verbatim>\<open>select\<close>, \<^verbatim>\<open>toSubquery\<close>, \<^verbatim>\<open>set\<close>, \<^verbatim>\<open>foundIn\<close>, \<^verbatim>\<open>notFoundIn\<close>
  and the compilation of a query object. A method gives the store after the call and the
  error it threw, if it threw one.
\<close>

text \<open>
  An entry of an object's constraint map: a kind with a value that holds no query object,
  or, as \<^verbatim>\<open>foundIn\<close> and \<^verbatim>\<open>notFoundIn\<close> store it, the kind \<^verbatim>\<open>FoundIn\<close> or \<^verbatim>\<open>NotFoundIn\<close>
  with the reference of a query object.
\<close>

datatype subquery_kind = InSubquery | NotInSubquery

datatype entry = Value constraint val | Subquery subquery_kind nat

text \<open>The fields of a \<^verbatim>\<open>Query\<close> object, and the store of the objects.\<close>

record query_object =
  o_classType :: class_type
  o_selection :: "string list"
  o_included :: "string list"
  o_constraints :: "(string \<times> entry list) list"
  o_sorting :: nat
  o_skipped :: nat
  o_limitation :: nat

type_synonym objects = "nat \<Rightarrow> query_object"

text \<open>The object that the field initialisers and the constructor make.\<close>

definition new_Query_object :: "deps \<Rightarrow> class_type \<Rightarrow> query_object" where
  "new_Query_object x classType =
     \<lparr> o_classType = classType, o_selection = [], o_included = [], o_constraints = [],
       o_sorting = Defaults_Query_Sort, o_skipped = Defaults_Query_Skip x,
       o_limitation = Defaults_Query_Limit x \<rparr>"

text \<open>\<^verbatim>\<open>select\<close> and \<^verbatim>\<open>toSubquery\<close> on the object at \<open>r\<close>; what was assigned before a throw stays.\<close>

fun select_object_loop :: "objects \<Rightarrow> nat \<Rightarrow> key_arg list \<Rightarrow> objects \<times> error option" where
  "select_object_loop objs r [] = (objs, None)"
| "select_object_loop objs r (ManyKeys ks # keyList) = (objs, Some EnforceError)"
| "select_object_loop objs r (OneKey key # keyList) =
     (if \<not> has (o_classType (objs r)) key then (objs, Some InvalidObjectKey)
      else select_object_loop
             (objs(r := (objs r)\<lparr>o_selection := o_selection (objs r) @ [key]\<rparr>)) r keyList)"

definition select_object :: "objects \<Rightarrow> nat \<Rightarrow> key_arg list \<Rightarrow> objects \<times> error option" where
  "select_object objs r keys =
     (if length keys = 0 then (objs, Some MissingConfiguration)
      else select_object_loop objs r (key_list keys))"

definition toSubquery_object :: "objects \<Rightarrow> nat \<Rightarrow> string \<Rightarrow> objects \<times> error option" where
  "toSubquery_object objs r sel =
     select_object (objs(r := (objs r)\<lparr>o_selection := []\<rparr>)) r [OneKey sel]"

text \<open>
  Modelled from the spec: \<^verbatim>\<open>ConstraintMap.set\<close> of \<^verbatim>\<open>utils/constraint-map\<close>, which is not
  part of the source, on these entries: every \<^verbatim>\<open>set\<close> appends to the list of its key.
\<close>

fun entries_set :: "(string \<times> entry list) list \<Rightarrow> string \<Rightarrow> entry \<Rightarrow> (string \<times> entry list) list" where
  "entries_set [] key e = [(key, [e])]"
| "entries_set ((k', es) # m) key e =
     (if k' = key then (k', es @ [e]) # m else (k', es) # entries_set m key e)"

text \<open>The private \<^verbatim>\<open>set\<close> on the object at \<open>r\<close>.\<close>

definition set_object :: "deps \<Rightarrow> objects \<Rightarrow> nat \<Rightarrow> string \<Rightarrow> entry \<Rightarrow> objects \<times> error option" where
  "set_object x objs r key e =
     (if \<not> has (o_classType (objs r)) key then (objs, Some ForbiddenOperation)
      else
        (let e' = (case e of Value c (VDate d) \<Rightarrow> Value c (VStr (toDatabaseDate x d)) | _ \<Rightarrow> e)
         in (objs(r := (objs r)\<lparr>o_constraints := entries_set (o_constraints (objs r)) key e'\<rparr>), None)))"

text \<open>
  \<^verbatim>\<open>foundIn\<close> and \<^verbatim>\<open>notFoundIn\<close> on the object at \<open>r\<close>, with the sub-query object at \<open>v\<close>:
  \<^verbatim>\<open>toSubquery\<close> narrows the object at \<open>v\<close>, then \<^verbatim>\<open>set\<close> stores its reference.
\<close>

definition foundIn_object ::
    "deps \<Rightarrow> objects \<Rightarrow> nat \<Rightarrow> string \<Rightarrow> string \<Rightarrow> nat \<Rightarrow> objects \<times> error option" where
  "foundIn_object x objs r key sel v =
     (case toSubquery_object objs v sel of
        (objs', Some e) \<Rightarrow> (objs', Some e)
      | (objs', None) \<Rightarrow> set_object x objs' r key (Subquery InSubquery v))"

definition notFoundIn_object ::
    "deps \<Rightarrow> objects \<Rightarrow> nat \<Rightarrow> string \<Rightarrow> string \<Rightarrow> nat \<Rightarrow> objects \<times> error option" where
  "notFoundIn_object x objs r key sel v =
     (case toSubquery_object objs v sel of
        (objs', Some e) \<Rightarrow> (objs', Some e)
      | (objs', None) \<Rightarrow> set_object x objs' r key (Subquery NotInSubquery v))"

text \<open>\<^verbatim>\<open>getSelection\<close> of an object.\<close>

definition getSelection_object :: "deps \<Rightarrow> query_object \<Rightarrow> string list" where
  "getSelection_object x ob =
     (let defaultSelect = [InternalKeys_Id x] @ def_keys (o_classType ob) @ def_timestamps (o_classType ob);
          selected = (if length (o_selection ob) > 0 then o_selection ob else defaultSelect)
      in selected @ o_included ob)"

text \<open>The text that \<^verbatim>\<open>getFindClause\<close> puts before \<^verbatim>\<open>WHERE\<close>.\<close>

definition find_head ::
    "deps \<Rightarrow> string \<times> string \<Rightarrow> (string \<times> string) list \<Rightarrow> (string \<times> relation) list \<Rightarrow> string" where
  "find_head x src columns relations =
     (let select_list =
            map (\<lambda>(key, alias). escapeKey x key False @ '' AS '' @ escapeKey x alias True) columns;
          from_clause = escapeKey x (fst src) False @ '' AS '' @ escapeKey x (snd src) False;
          joins =
            map (\<lambda>(alias, relation).
                   ''LEFT OUTER JOIN '' @ escapeKey x (rel_class_source relation) False
                   @ '' AS '' @ escapeKey x alias True
                   @ '' ON '' @ escapeKey x (rel_parentClassKey relation) False
                   @ '' = '' @ escapeKey x (rel_sourceClassKey relation (snd src)) False)
                relations
      in ''SELECT '' @ join '', '' select_list @ '' FROM '' @ from_clause @ '' ''
         @ join [CHR 0x0A] joins)"

text \<open>
  Modelled from the spec: \<^verbatim>\<open>getConstraintsFrom\<close> of \<^verbatim>\<open>query-mapper\<close>, which is not part of
  the source, on these entries: as above, a renaming of the keys by \<open>constraintKey\<close>.
  \<open>flatten_entries\<close> is the flattening that \<^verbatim>\<open>getFindClause\<close> performs with \<^verbatim>\<open>reduce\<close>.
\<close>

definition getConstraintsFrom_object ::
    "deps \<Rightarrow> string \<Rightarrow> (string \<times> entry list) list \<Rightarrow> (string \<times> entry list) list" where
  "getConstraintsFrom_object x cn m = map (\<lambda>(key, es). (constraintKey x cn key, es)) m"

definition flatten_entries :: "(string \<times> entry list) list \<Rightarrow> (string \<times> entry) list" where
  "flatten_entries m = concat (map (\<lambda>(key, es). map (\<lambda>e. (key, e)) es) m)"

text \<open>
  \<^verbatim>\<open>subqueryEscape\<close> on the query object at \<open>r\<close>: the options of the object as it is in the
  store, then \<^verbatim>\<open>getFindClause\<close>. An entry with a value is compiled by \<open>parseConstraint\<close>
  above; an entry with a reference by the table's entries for its kind,
  \<^verbatim>\<open>${k} IN (${this.subqueryEscape(v)})\<close> and \<^verbatim>\<open>${k} NOT IN (${this.subqueryEscape(v)})\<close>.
  The first number bounds the depth of sub-queries that is followed, and the result is
  \<open>None\<close> when the bound is reached: a query for which no bound is enough is one on which
  the code recurses without end.
\<close>

fun subqueryEscape_object ::
      "deps \<Rightarrow> store \<Rightarrow> objects \<Rightarrow> nat \<Rightarrow> nat \<Rightarrow> (error + string) option"
and parseConstraints_object ::
      "deps \<Rightarrow> store \<Rightarrow> objects \<Rightarrow> nat \<Rightarrow> (string \<times> entry) list \<Rightarrow> (error + string list) option"
where
  "subqueryEscape_object x h objs 0 r = None"
| "subqueryEscape_object x h objs (Suc n) r =
     (let cn = className (o_classType (objs r));
          relationsMap = def_relations (o_classType (objs r));
          sel = getSelection_object x (objs r);
          src = (source (o_classType (objs r)), cn);
          columns = getColumnsFrom x cn sel relationsMap;
          relations = getRelationsFrom x sel relationsMap;
          constraints = getConstraintsFrom_object x cn (o_constraints (objs r))
      in case parseConstraints_object x h objs n (flatten_entries constraints) of
           None \<Rightarrow> None
         | Some (Inl e) \<Rightarrow> Some (Inl e)
         | Some (Inr wheres) \<Rightarrow>
             Some (Inr (find_head x src columns relations @ '' WHERE '' @ join '' AND '' wheres)))"
| "parseConstraints_object x h objs n [] = Some (Inr [])"
| "parseConstraints_object x h objs n ((key, Value c v) # es) =
     (case parseConstraint x h key c v of
        Inl e \<Rightarrow> Some (Inl e)
      | Inr w \<Rightarrow>
          (case parseConstraints_object x h objs n es of
             None \<Rightarrow> None
           | Some (Inl e) \<Rightarrow> Some (Inl e)
           | Some (Inr ws) \<Rightarrow> Some (Inr (w # ws))))"
| "parseConstraints_object x h objs n ((key, Subquery sk r) # es) =
     (case subqueryEscape_object x h objs n r of
        None \<Rightarrow> None
      | Some (Inl e) \<Rightarrow> Some (Inl e)
      | Some (Inr s) \<Rightarrow>
          (case parseConstraints_object x h objs n es of
             None \<Rightarrow> None
           | Some (Inl e) \<Rightarrow> Some (Inl e)
           | Some (Inr ws) \<Rightarrow>
               Some (Inr ((escapeKey x key False
                           @ (case sk of InSubquery \<Rightarrow> '' IN ('' | NotInSubquery \<Rightarrow> '' NOT IN ('')
                           @ s @ '')'') # ws))))"

section \<open>Sample collaborators\<close>

text \<open>
  Modelled from the spec: a sample of the collaborators outside the source, used to
  evaluate the definitions at concrete inputs. Identifiers are quoted with backticks;
  a string literal is quoted, its quotes and backslashes escaped; a compound key is a list
  of keys separated by \<^verbatim>\<open>|\<close>; a relation column is \<^verbatim>\<open>relationAlias.relationColumn\<close>;
  a selected relation key expands into prefixed columns of the relation.
\<close>

definition quote_text :: "string \<Rightarrow> string" where
  "quote_text s =
     [CHR 0x27] @ concat (map (\<lambda>c. if c = CHR 0x27 \<or> c = CHR 0x5C then [CHR 0x5C, c] else [c]) s)
     @ [CHR 0x27]"

fun sample_escape :: "val \<Rightarrow> string" where
  "sample_escape (VNum n) = string_of_int n"
| "sample_escape (VStr s) = quote_text s"
| "sample_escape (VDate d) = quote_text d"
| "sample_escape (VBool b) = (if b then ''true'' else ''false'')"
| "sample_escape (VArr vs) = join '', '' (map sample_escape vs)"
| "sample_escape _ = ''NULL''"

definition sample_escapeKey :: "string \<Rightarrow> bool \<Rightarrow> string" where
  "sample_escapeKey key useRaw = ''`'' @ key @ ''`''"

fun split_on :: "char \<Rightarrow> string \<Rightarrow> string list" where
  "split_on d [] = [[]]"
| "split_on d (c # cs) =
     (if c = d then [] # split_on d cs
      else (case split_on d cs of w # ws \<Rightarrow> (c # w) # ws | [] \<Rightarrow> [[c]]))"

definition sample_parseKey :: "string \<Rightarrow> string \<times> string" where
  "sample_parseKey key =
     (takeWhile (\<lambda>c. c \<noteq> CHR ''.'') key, drop 1 (dropWhile (\<lambda>c. c \<noteq> CHR ''.'') key))"

definition sample_getColumnsFrom ::
    "string \<Rightarrow> string list \<Rightarrow> (string \<times> relation) list \<Rightarrow> (string \<times> string) list" where
  "sample_getColumnsFrom cn sel rels =
     concat (map (\<lambda>key. case map_of rels key of
                          None \<Rightarrow> [(cn @ ''.'' @ key, key)]
                        | Some r \<Rightarrow> [(key @ ''.id'', key @ ''.id''), (key @ ''.name'', key @ ''.name'')])
                 sel)"

definition sample_deps :: deps where
  "sample_deps =
     \<lparr> client_escapeKey = sample_escapeKey,
       client_escape = sample_escape,
       CompoundKey_isUsedBy = (\<lambda>key. CHR ''|'' \<in> set key),
       CompoundKey_from = split_on CHR ''|'',
       Relation_isUsedBy = (\<lambda>key. CHR ''.'' \<in> set key),
       Relation_parseKey = sample_parseKey,
       toDatabaseDate = (\<lambda>d. d),
       Date_toString = (\<lambda>d. d),
       getColumnsFrom = sample_getColumnsFrom,
       getRelationsFrom = (\<lambda>sel rels. filter (\<lambda>(a, r). a \<in> set sel) rels),
       constraintKey = (\<lambda>cn key. key),
       getSortingFrom = (\<lambda>cn sorting. sorting),
       InternalKeys_Id = ''id'',
       InternalId = ''id'',
       CreatedAt = ''created_at'',
       UpdatedAt = ''updated_at'',
       DeletedAt = ''deleted_at'',
       Defaults_Query_Skip = 0,
       Defaults_Query_Limit = 100,
       version = ''6.0.0'' \<rparr>"

text \<open>A sample class, and a store in which every array is empty.\<close>

definition sample_class :: class_type where
  "sample_class =
     \<lparr> className = ''post'',
       source = ''post'',
       declared = [''id'', ''name'', ''title'', ''body'', ''title|body'', ''author''],
       def_keys = [''name'', ''title'', ''body''],
       def_timestamps = [''created_at'', ''updated_at'', ''deleted_at''],
       def_relations =
         [(''author'', \<lparr> rel_class_source = ''user'', rel_parentClassKey = ''author.id'',
                         rel_sourceClassKey = (\<lambda>a. a @ ''.author_id'') \<rparr>)] \<rparr>"

definition empty_store :: store where
  "empty_store = (\<lambda>a. [])"

text \<open>
  A store in which every object is a fresh query of the sample class, and the same store
  after \<^verbatim>\<open>include('author')\<close> on the object at 1.
\<close>

definition sample_objects :: objects where
  "sample_objects = (\<lambda>r. new_Query_object sample_deps sample_class)"


section \<open>Notions used in the statements\<close>

text \<open>The top-level key that a column of a row is written to.\<close>

definition target :: "deps \<Rightarrow> string \<Rightarrow> string" where
  "target x key = (if Relation_isUsedBy x key then fst (Relation_parseKey x key) else key)"

text \<open>The row of the spec's example.\<close>

definition example_row :: "(string \<times> val) list" where
  "example_row =
     [(''id'', VNum 1), (''name'', VStr ''a''), (''author.id'', VNum 2), (''author.name'', VStr ''b'')]"

text \<open>The elements of an array value.\<close>

definition items_of :: "val \<Rightarrow> val list" where
  "items_of v = (case v of VArr items \<Rightarrow> items | _ \<Rightarrow> [])"


section \<open>KeyMap and row mapping\<close>

lemma km_get_km_set: "km_get (km_set m k v) k' = (if k' = k then Some v else km_get m k')"
  by (induction m) (auto simp: km_get_def)

lemma map_of_obj_put: "map_of (obj_put ps k v) k' = (if k' = k then Some v else map_of ps k')"
  by (induction ps) auto

text \<open>
  C8. \<^verbatim>\<open>create\<close> sets the creation and the update timestamp key to the same reading of the
  clock; \<^verbatim>\<open>update\<close> sets the update timestamp key and no other; \<^verbatim>\<open>destroy\<close> sets the update
  and the deletion timestamp key and leaves every other key of the payload as it was.
\<close>

theorem write_timestamps:
  "km_get (fst (create x now src keys)) (CreatedAt x) = Some (VStr now)
   \<and> km_get (fst (create x now src keys)) (UpdatedAt x) = Some (VStr now)
   \<and> (\<forall>k. k \<noteq> CreatedAt x \<longrightarrow> k \<noteq> UpdatedAt x \<longrightarrow>
          km_get (fst (create x now src keys)) k = km_get keys k)
   \<and> km_get (fst (update x now src keys i)) (UpdatedAt x) = Some (VStr now)
   \<and> (\<forall>k. k \<noteq> UpdatedAt x \<longrightarrow> km_get (fst (update x now src keys i)) k = km_get keys k)
   \<and> km_get (fst (destroy x now src keys i)) (UpdatedAt x) = Some (VStr now)
   \<and> km_get (fst (destroy x now src keys i)) (DeletedAt x) = Some (VStr now)
   \<and> (\<forall>k. k \<noteq> UpdatedAt x \<longrightarrow> k \<noteq> DeletedAt x \<longrightarrow>
          km_get (fst (destroy x now src keys i)) k = km_get keys k)"
  by (simp add: create_def update_def destroy_def Let_def km_get_km_set)

theorem write_timestamps_witness:
  "''name'' \<noteq> CreatedAt sample_deps \<and> ''name'' \<noteq> UpdatedAt sample_deps \<and> ''name'' \<noteq> DeletedAt sample_deps
   \<and> km_get (fst (create sample_deps ''2020-01-01'' ''post'' [(''name'', VStr ''a'')])) ''name''
        = Some (VStr ''a'')
   \<and> km_get (fst (update sample_deps ''2020-01-01'' ''post'' [(''name'', VStr ''a'')] (IdNum 7))) ''name''
        = Some (VStr ''a'')
   \<and> km_get (fst (destroy sample_deps ''2020-01-01'' ''post'' [(''name'', VStr ''a'')] (IdNum 7))) ''name''
        = Some (VStr ''a'')
   \<and> km_get (fst (destroy sample_deps ''2020-01-01'' ''post'' [(''name'', VStr ''a'')] (IdNum 7)))
        ''deleted_at'' = Some (VStr ''2020-01-01'')"
proof -
  have ne: "''name'' \<noteq> CreatedAt sample_deps" "''name'' \<noteq> UpdatedAt sample_deps"
    "''name'' \<noteq> DeletedAt sample_deps"
    by (simp_all add: sample_deps_def)
  have d: "DeletedAt sample_deps = ''deleted_at''" by (simp add: sample_deps_def)
  have k: "km_get [(''name'', VStr ''a'')] ''name'' = Some (VStr ''a'')" by (simp add: km_get_def)
  from write_timestamps [of sample_deps "''2020-01-01''" "''post''" "[(''name'', VStr ''a'')]" "IdNum 7"]
  show ?thesis using ne d k by metis
qed

lemma loop_untouched:
  "\<forall>(k', v') \<in> set row. target x k' \<noteq> k \<Longrightarrow> km_get (mapRows_loop x keys row) k = km_get keys k"
proof (induction row arbitrary: keys)
  case Nil
  then show ?case by simp
next
  case (Cons p row)
  obtain k0 v0 where p: "p = (k0, v0)" by (cases p)
  from Cons.prems p have t: "target x k0 \<noteq> k" and rest: "\<forall>(k', v') \<in> set row. target x k' \<noteq> k"
    by auto
  show ?case
  proof (cases "Relation_isUsedBy x k0")
    case True
    obtain a c where ac: "Relation_parseKey x k0 = (a, c)" by (cases "Relation_parseKey x k0")
    with True t have "a \<noteq> k" by (simp add: target_def)
    then show ?thesis
      using True ac p Cons.IH [OF rest] by (simp add: Let_def km_get_km_set)
  next
    case False
    with t have "k0 \<noteq> k" by (simp add: target_def)
    then show ?thesis
      using False p Cons.IH [OF rest] by (simp add: km_get_km_set)
  qed
qed

lemma loop_plain:
  assumes "distinct (map fst row)" and "(k, v) \<in> set row" and "\<not> Relation_isUsedBy x k"
    and "\<forall>(k', v') \<in> set row. Relation_isUsedBy x k' \<longrightarrow> fst (Relation_parseKey x k') \<noteq> k"
  shows "km_get (mapRows_loop x keys row) k = Some v"
  using assms
proof (induction row arbitrary: keys)
  case Nil
  then show ?case by simp
next
  case (Cons p row)
  obtain k0 v0 where p: "p = (k0, v0)" by (cases p)
  have nal: "\<forall>(k', v') \<in> set row. Relation_isUsedBy x k' \<longrightarrow> fst (Relation_parseKey x k') \<noteq> k"
    using Cons.prems(4) by auto
  have dist: "distinct (map fst row)" and fresh: "k0 \<notin> fst ` set row"
    using Cons.prems(1) p by auto
  show ?case
  proof (cases "k0 = k")
    case True
    with fresh have "k \<notin> fst ` set row" by simp
    then have "\<forall>(k', v') \<in> set row. target x k' \<noteq> k"
      using nal by (force simp: target_def)
    from loop_untouched [OF this] have u: "\<And>keys. km_get (mapRows_loop x keys row) k = km_get keys k" .
    from True Cons.prems(2) p fresh have "v0 = v" by force
    then show ?thesis
      using True p Cons.prems(3) u by (simp add: km_get_km_set)
  next
    case False
    with Cons.prems(2) p have "(k, v) \<in> set row" by auto
    from Cons.IH [OF dist this Cons.prems(3) nal] show ?thesis
      using p by (simp add: Let_def split: prod.splits)
  qed
qed

lemma loop_keeps_column:
  assumes "km_get keys a = Some (VObj ps)" and "map_of ps c = Some v"
    and "\<forall>(k', v') \<in> set row. \<not> Relation_isUsedBy x k' \<longrightarrow> k' \<noteq> a"
    and "\<forall>(k', v') \<in> set row. Relation_isUsedBy x k' \<longrightarrow> Relation_parseKey x k' \<noteq> (a, c)"
  shows "\<exists>ps'. km_get (mapRows_loop x keys row) a = Some (VObj ps') \<and> map_of ps' c = Some v"
  using assms
proof (induction row arbitrary: keys ps)
  case Nil
  then show ?case by simp
next
  case (Cons p row)
  obtain k0 v0 where p: "p = (k0, v0)" by (cases p)
  have r3: "\<forall>(k', v') \<in> set row. \<not> Relation_isUsedBy x k' \<longrightarrow> k' \<noteq> a"
    and r4: "\<forall>(k', v') \<in> set row. Relation_isUsedBy x k' \<longrightarrow> Relation_parseKey x k' \<noteq> (a, c)"
    using Cons.prems(3,4) by auto
  show ?case
  proof (cases "Relation_isUsedBy x k0")
    case False
    with Cons.prems(3) p have "k0 \<noteq> a" by auto
    then have "km_get (km_set keys k0 v0) a = Some (VObj ps)"
      using Cons.prems(1) by (simp add: km_get_km_set)
    from Cons.IH [OF this Cons.prems(2) r3 r4] show ?thesis
      using False p by simp
  next
    case True
    obtain a0 c0 where ac: "Relation_parseKey x k0 = (a0, c0)" by (cases "Relation_parseKey x k0")
    with True Cons.prems(4) p have ne: "(a0, c0) \<noteq> (a, c)" by auto
    show ?thesis
    proof (cases "a0 = a")
      case False
      then have "km_get (km_set keys a0 (VObj (obj_put (spread (km_get keys a0)) c0 v0))) a = Some (VObj ps)"
        using Cons.prems(1) by (simp add: km_get_km_set)
      from Cons.IH [OF this Cons.prems(2) r3 r4] show ?thesis
        using True p ac by (simp add: Let_def)
    next
      case a: True
      with ne have "c0 \<noteq> c" by simp
      then have m: "map_of (obj_put ps c0 v0) c = Some v"
        using Cons.prems(2) by (simp add: map_of_obj_put)
      have "km_get (km_set keys a0 (VObj (obj_put (spread (km_get keys a0)) c0 v0))) a
              = Some (VObj (obj_put ps c0 v0))"
        using a Cons.prems(1) by (simp add: km_get_km_set)
      from Cons.IH [OF this m r3 r4] show ?thesis
        using True p ac by (simp add: Let_def)
    qed
  qed
qed

lemma loop_prefixed:
  assumes "distinct (map fst row)" and "(k, v) \<in> set row" and "Relation_isUsedBy x k"
    and "\<forall>(k', v') \<in> set row. \<not> Relation_isUsedBy x k' \<longrightarrow> k' \<noteq> fst (Relation_parseKey x k)"
    and "\<forall>(k', v') \<in> set row. Relation_isUsedBy x k' \<longrightarrow> k' \<noteq> k
            \<longrightarrow> Relation_parseKey x k' \<noteq> Relation_parseKey x k"
  shows "\<exists>ps. km_get (mapRows_loop x keys row) (fst (Relation_parseKey x k)) = Some (VObj ps)
              \<and> map_of ps (snd (Relation_parseKey x k)) = Some v"
  using assms
proof (induction row arbitrary: keys)
  case Nil
  then show ?case by simp
next
  case (Cons p row)
  obtain k0 v0 where p: "p = (k0, v0)" by (cases p)
  obtain a c where ac: "Relation_parseKey x k = (a, c)" by (cases "Relation_parseKey x k")
  have dist: "distinct (map fst row)" and fresh: "k0 \<notin> fst ` set row"
    using Cons.prems(1) p by auto
  have r4: "\<forall>(k', v') \<in> set row. \<not> Relation_isUsedBy x k' \<longrightarrow> k' \<noteq> fst (Relation_parseKey x k)"
    and r5: "\<forall>(k', v') \<in> set row. Relation_isUsedBy x k' \<longrightarrow> k' \<noteq> k
            \<longrightarrow> Relation_parseKey x k' \<noteq> Relation_parseKey x k"
    using Cons.prems(4,5) by auto
  show ?case
  proof (cases "k0 = k")
    case True
    with Cons.prems(2) p fresh have v0: "v0 = v" by force
    from True fresh have "k \<notin> fst ` set row" by simp
    with r5 ac have r5': "\<forall>(k', v') \<in> set row. Relation_isUsedBy x k' \<longrightarrow> Relation_parseKey x k' \<noteq> (a, c)"
      by force
    from r4 ac have r4': "\<forall>(k', v') \<in> set row. \<not> Relation_isUsedBy x k' \<longrightarrow> k' \<noteq> a"
      by simp
    let ?obj = "obj_put (spread (km_get keys a)) c v"
    have g: "km_get (km_set keys a (VObj ?obj)) a = Some (VObj ?obj)"
      by (simp add: km_get_km_set)
    have m: "map_of ?obj c = Some v" by (simp add: map_of_obj_put)
    from loop_keeps_column [OF g m r4' r5'] show ?thesis
      using True p ac v0 Cons.prems(3) by (simp add: Let_def)
  next
    case False
    with Cons.prems(2) p have "(k, v) \<in> set row" by auto
    from Cons.IH [OF dist this Cons.prems(3) r4 r5] show ?thesis
      using p by (simp add: Let_def split: prod.splits)
  qed
qed

text \<open>
  C9 (as amended). For a row whose column names are distinct, in which no unprefixed
  column is named like the relation alias of a prefixed column and no two prefixed columns
  parse to the same alias and relation column: every prefixed column is found, under its
  relation column, in an object stored under its relation alias, and every unprefixed
  column is found under its own name on the top level.
\<close>

theorem mapRows_nests_relation_columns:
  assumes "distinct (map fst row)"
    and "\<forall>(k, v) \<in> set row. \<forall>(k', v') \<in> set row.
           Relation_isUsedBy x k \<and> \<not> Relation_isUsedBy x k' \<longrightarrow> fst (Relation_parseKey x k) \<noteq> k'"
    and "\<forall>(k, v) \<in> set row. \<forall>(k', v') \<in> set row.
           Relation_isUsedBy x k \<and> Relation_isUsedBy x k' \<and> k' \<noteq> k
             \<longrightarrow> Relation_parseKey x k' \<noteq> Relation_parseKey x k"
  shows "\<forall>(k, v) \<in> set row.
           if Relation_isUsedBy x k
           then (\<exists>ps. km_get (mapRows x row) (fst (Relation_parseKey x k)) = Some (VObj ps)
                      \<and> map_of ps (snd (Relation_parseKey x k)) = Some v)
           else km_get (mapRows x row) k = Some v"
proof (clarify, goal_cases)
  case (1 k v)
  show ?case
  proof (cases "Relation_isUsedBy x k")
    case True
    have a: "\<forall>(k', v') \<in> set row. \<not> Relation_isUsedBy x k' \<longrightarrow> k' \<noteq> fst (Relation_parseKey x k)"
      using assms(2) 1 True by fastforce
    have b: "\<forall>(k', v') \<in> set row. Relation_isUsedBy x k' \<longrightarrow> k' \<noteq> k
            \<longrightarrow> Relation_parseKey x k' \<noteq> Relation_parseKey x k"
      using assms(3) 1 True by fastforce
    from loop_prefixed [OF assms(1) 1 True a b] show ?thesis
      using True by (simp add: mapRows_def)
  next
    case False
    have a: "\<forall>(k', v') \<in> set row. Relation_isUsedBy x k' \<longrightarrow> fst (Relation_parseKey x k') \<noteq> k"
      using assms(2) 1 False by fastforce
    from loop_plain [OF assms(1) 1 False a] show ?thesis
      using False by (simp add: mapRows_def)
  qed
qed

lemma sample_relation_keys:
  "Relation_isUsedBy sample_deps = (\<lambda>key. CHR ''.'' \<in> set key)"
  "Relation_parseKey sample_deps = sample_parseKey"
  by (simp_all add: sample_deps_def)

lemma example_row_mapped:
  "mapRows sample_deps example_row
     = [(''id'', VNum 1), (''name'', VStr ''a''),
        (''author'', VObj [(''id'', VNum 2), (''name'', VStr ''b'')])]"
  by (simp add: mapRows_def example_row_def sample_relation_keys sample_parseKey_def km_get_def)

theorem mapRows_nests_relation_columns_witness:
  "distinct (map fst example_row)
   \<and> km_get (mapRows sample_deps example_row) ''name'' = Some (VStr ''a'')
   \<and> (\<exists>ps. km_get (mapRows sample_deps example_row) ''author'' = Some (VObj ps)
            \<and> map_of ps ''name'' = Some (VStr ''b''))"
proof -
  have d: "distinct (map fst example_row)"
    by (simp add: example_row_def)
  have h1: "\<forall>(k, v) \<in> set example_row. \<forall>(k', v') \<in> set example_row.
           Relation_isUsedBy sample_deps k \<and> \<not> Relation_isUsedBy sample_deps k'
             \<longrightarrow> fst (Relation_parseKey sample_deps k) \<noteq> k'"
    by (simp add: example_row_def sample_relation_keys sample_parseKey_def)
  have h2: "\<forall>(k, v) \<in> set example_row. \<forall>(k', v') \<in> set example_row.
           Relation_isUsedBy sample_deps k \<and> Relation_isUsedBy sample_deps k' \<and> k' \<noteq> k
             \<longrightarrow> Relation_parseKey sample_deps k' \<noteq> Relation_parseKey sample_deps k"
    by (simp add: example_row_def sample_relation_keys sample_parseKey_def)
  note t = mapRows_nests_relation_columns [OF d h1 h2]
  have n: "(''name'', VStr ''a'') \<in> set example_row" and a: "(''author.name'', VStr ''b'') \<in> set example_row"
    by (simp_all add: example_row_def)
  from t n have "km_get (mapRows sample_deps example_row) ''name'' = Some (VStr ''a'')"
    by (fastforce simp: sample_relation_keys)
  moreover from t a have "\<exists>ps. km_get (mapRows sample_deps example_row) ''author'' = Some (VObj ps)
            \<and> map_of ps ''name'' = Some (VStr ''b'')"
    by (fastforce simp: sample_relation_keys sample_parseKey_def)
  ultimately show ?thesis using d by simp
qed

theorem mapRows_alias_collision:
  "mapRows sample_deps [(''author.id'', VNum 2), (''author'', VNum 5)] = [(''author'', VNum 5)]"
  by (simp add: mapRows_def sample_relation_keys sample_parseKey_def km_get_def)

section \<open>Writes: the identifier\<close>

text \<open>
  C1. In the scripts of \<^verbatim>\<open>update\<close> and \<^verbatim>\<open>destroy\<close>, whatever the client's escaping
  functions are, the table, the column names and the values go through them, and the
  identifier after \<^verbatim>\<open>WHERE\<close> does not: its text is spliced in as it is.
\<close>

theorem write_identifier_not_escaped:
  "snd (update x now src keys (IdStr s))
     = ''UPDATE '' @ client_escapeKey x src False @ '' SET ''
       @ join '', '' (map (\<lambda>(key, value). client_escapeKey x key False @ '' = '' @ client_escape x value)
                         (km_set keys (UpdatedAt x) (VStr now)))
       @ '' WHERE '' @ client_escapeKey x (InternalId x) False @ '' = '' @ s
       @ ''; -- Warp Server '' @ version x
   \<and> snd (destroy x now src keys (IdStr s))
     = ''UPDATE '' @ client_escapeKey x src False @ '' SET ''
       @ join '', '' (map (\<lambda>(key, value). client_escapeKey x key False @ '' = '' @ client_escape x value)
                         (km_set (km_set keys (UpdatedAt x) (VStr now)) (DeletedAt x) (VStr now)))
       @ '' WHERE '' @ client_escapeKey x (InternalId x) False @ '' = '' @ s
       @ ''; -- Warp Server '' @ version x"
  by (simp add: update_def destroy_def Let_def)

lemma update_injection_example:
  "snd (update sample_deps ''2020-01-01'' ''user'' [(''name'', VStr ''x'')] (IdStr ''0 OR 1=1''))
     = ''UPDATE `user` SET `name` = '' @ sample_escape (VStr ''x'')
       @ '', `updated_at` = '' @ sample_escape (VStr ''2020-01-01'')
       @ '' WHERE `id` = 0 OR 1=1; -- Warp Server 6.0.0''"
  by (simp add: update_def Let_def sample_deps_def sample_escapeKey_def)

section \<open>The builder's checks\<close>

text \<open>
  C10. \<^verbatim>\<open>select()\<close> with no argument throws the missing-configuration error, while
  \<^verbatim>\<open>select([])\<close> with an empty list returns the query as it was.
\<close>

theorem select_empty_list_succeeds:
  "select q [] = Inl MissingConfiguration \<and> select q [ManyKeys []] = Inr q"
  by (simp add: select_def)

lemma set_constraint_undeclared:
  "\<not> has (q_classType q) key \<Longrightarrow> set_constraint x q key c v = Inl ForbiddenOperation"
  by (simp add: set_constraint_def)

text \<open>
  C3. On a key for which the class's \<^verbatim>\<open>has\<close> answers false, every constraint method of
  the builder throws, and the error it throws is the forbidden-operation error, not the
  invalid-key error. The foundIn family narrows its sub-queries first; where that
  succeeds, the same holds.
\<close>

theorem constraint_on_undeclared_key:
  assumes "\<not> has (q_classType q) key" and "\<not> has (q_classType q) (joined_key keys)"
  shows "equalTo x q key v = Inl ForbiddenOperation
    \<and> notEqualTo x q key v = Inl ForbiddenOperation
    \<and> greaterThan_q x q key v = Inl ForbiddenOperation
    \<and> greaterThanOrEqualTo x q key v = Inl ForbiddenOperation
    \<and> lessThan_q x q key v = Inl ForbiddenOperation
    \<and> lessThanOrEqualTo x q key v = Inl ForbiddenOperation
    \<and> exists_q x q key = Inl ForbiddenOperation
    \<and> doesNotExist x q key = Inl ForbiddenOperation
    \<and> containedIn x q key v = Inl ForbiddenOperation
    \<and> notContainedIn x q key v = Inl ForbiddenOperation
    \<and> containedInOrDoesNotExist x q key v = Inl ForbiddenOperation
    \<and> startsWith x q key v = Inl ForbiddenOperation
    \<and> endsWith x q key v = Inl ForbiddenOperation
    \<and> contains x q keys v = Inl ForbiddenOperation
    \<and> containsEither x q keys v = Inl ForbiddenOperation
    \<and> containsAll x q keys v = Inl ForbiddenOperation
    \<and> where_q x q ((key, (c, v) # cs) # rest) = Inl ForbiddenOperation
    \<and> (\<forall>sub. toSubquery s sel = Inr sub \<longrightarrow>
          foundIn x q key sel s = Inl ForbiddenOperation
          \<and> notFoundIn x q key sel s = Inl ForbiddenOperation)
    \<and> (\<forall>subs. toSubqueries items = Inr subs \<longrightarrow>
          foundInEither x q key items = Inl ForbiddenOperation
          \<and> foundInAll x q key items = Inl ForbiddenOperation
          \<and> notFoundInEither x q key items = Inl ForbiddenOperation
          \<and> notFoundInAll x q key items = Inl ForbiddenOperation)"
  using assms
  by (simp add: set_constraint_undeclared equalTo_def notEqualTo_def greaterThan_q_def
      greaterThanOrEqualTo_def lessThan_q_def lessThanOrEqualTo_def exists_q_def doesNotExist_def
      containedIn_def notContainedIn_def containedInOrDoesNotExist_def startsWith_def endsWith_def
      contains_def containsEither_def containsAll_def foundIn_def notFoundIn_def
      foundInEither_def foundInAll_def notFoundInEither_def notFoundInAll_def set_subqueries_def)

theorem constraint_on_undeclared_key_witness:
  "\<not> has (q_classType (new_Query sample_deps sample_class)) ''nope''
   \<and> equalTo sample_deps (new_Query sample_deps sample_class) ''nope'' (VNum 1) = Inl ForbiddenOperation
   \<and> contains sample_deps (new_Query sample_deps sample_class) (OneKey ''nope'') (VStr ''a'')
        = Inl ForbiddenOperation
   \<and> toSubquery (new_Query sample_deps sample_class) ''name''
        = Inr (with_selection (new_Query sample_deps sample_class) [''name''])
   \<and> foundIn sample_deps (new_Query sample_deps sample_class) ''nope'' ''name''
        (new_Query sample_deps sample_class) = Inl ForbiddenOperation
   \<and> Inl ForbiddenOperation \<noteq> (Inl InvalidObjectKey :: error + query)"
proof -
  let ?q = "new_Query sample_deps sample_class"
  have h: "\<not> has (q_classType ?q) ''nope''"
    by (simp add: new_Query_def has_def sample_class_def)
  have h': "\<not> has (q_classType ?q) (joined_key (OneKey ''nope''))"
    using h by simp
  have s: "toSubquery ?q ''name'' = Inr (with_selection ?q [''name''])"
    by (simp add: toSubquery_def select_def with_selection_def new_Query_def has_def sample_class_def)
  from constraint_on_undeclared_key [OF h h', where x = sample_deps and v = "VNum 1" and s = ?q
      and sel = "''name''"]
    constraint_on_undeclared_key [OF h h', where x = sample_deps and v = "VStr ''a''"]
  show ?thesis using h s by simp
qed

section \<open>Sorting\<close>

text \<open>
  C5. Two queries made by the constructor refer to one and the same sorting array, the
  array \<^verbatim>\<open>Defaults.Query.Sort\<close>: a \<^verbatim>\<open>sortBy\<close> or \<^verbatim>\<open>sortByDescending\<close> on the first adds
  its token to what the second sorts by, and to the sorting of the second's query
  options.
\<close>

theorem sorting_shared_between_queries:
  "q_sorting (new_Query x c) = q_sorting (new_Query x sample_class)
   \<and> sortBy h (new_Query x sample_class) [OneKey ''name'']
       = Inr (h(q_sorting (new_Query x c) := h (q_sorting (new_Query x c)) @ [''name'']))
   \<and> sortByDescending h (new_Query x sample_class) [OneKey ''name'']
       = Inr (h(q_sorting (new_Query x c) := h (q_sorting (new_Query x c)) @ [''-name'']))
   \<and> qo_sorting (toQueryOptions x
        (h(q_sorting (new_Query x c) := h (q_sorting (new_Query x c)) @ [''name''])) (new_Query x c))
       = getSortingFrom x (className c) (h (q_sorting (new_Query x c)) @ [''name''])
   \<and> h (q_sorting (new_Query x c)) @ [''name''] \<noteq> h (q_sorting (new_Query x c))"
  by (simp add: new_Query_def sortBy_def sortByDescending_def has_def sample_class_def
      toQueryOptions_def Let_def)

section \<open>The constraint table\<close>

text \<open>
  C2. The table has no entry for the kind that \<^verbatim>\<open>notFoundInAll\<close> stores: compiling it
  throws the forbidden-operation error, and so does compiling a query on which
  \<^verbatim>\<open>notFoundInAll\<close> was called with a declared key and a sub-query.
\<close>

theorem notFoundInAll_forbidden:
  "parseConstraint x h key NotFoundInAll v = Inl ForbiddenOperation
   \<and> notFoundInAll x (new_Query x sample_class) ''id'' [(''name'', new_Query x sample_class)]
       = Inr (with_constraints (new_Query x sample_class)
               [(''id'', [(NotFoundInAll,
                           VArr [VQuery (with_selection (new_Query x sample_class) [''name''])])])])
   \<and> subqueryEscape x h
        (VQuery (with_constraints (new_Query x sample_class)
               [(''id'', [(NotFoundInAll,
                           VArr [VQuery (with_selection (new_Query x sample_class) [''name''])])])]))
       = Inl ForbiddenOperation"
proof -
  let ?q = "new_Query x sample_class"
  have p: "parseConstraint x h k NotFoundInAll w = Inl ForbiddenOperation" for k w
    by simp
  have s: "toSubquery ?q ''name'' = Inr (with_selection ?q [''name''])"
    by (simp add: toSubquery_def select_def with_selection_def new_Query_def has_def sample_class_def)
  have b: "notFoundInAll x ?q ''id'' [(''name'', ?q)]
       = Inr (with_constraints ?q [(''id'', [(NotFoundInAll, VArr [VQuery (with_selection ?q [''name''])])])])"
    by (simp add: notFoundInAll_def set_subqueries_def s set_constraint_def)
       (simp add: new_Query_def has_def sample_class_def)
  have c: "subqueryEscape x h
        (VQuery (with_constraints ?q [(''id'', [(NotFoundInAll, VArr [VQuery (with_selection ?q [''name''])])])]))
       = Inl ForbiddenOperation"
    by (simp add: toQueryOptions_def Let_def with_constraints_def getConstraintsFrom_def
        cm_entries_def cm_toArray_def del: parseConstraint.simps add: p)
  from p b c show ?thesis by blast
qed

text \<open>Counting in joined pieces.\<close>

lemma key_count_append: "key_count (ps @ ps') = key_count ps + key_count ps'"
  by (induction ps rule: key_count.induct) auto

lemma escaped_values_append: "escaped_values (ps @ ps') = escaped_values ps @ escaped_values ps'"
  by (induction ps rule: escaped_values.induct) auto

lemma subquery_values_append: "subquery_values (ps @ ps') = subquery_values ps @ subquery_values ps'"
  by (induction ps rule: subquery_values.induct) auto

lemma key_count_join:
  "key_count sep = 0 \<Longrightarrow> key_count (join_parts sep pss) = sum_list (map key_count pss)"
  by (induction sep pss rule: join_parts.induct) (auto simp: key_count_append)

lemma escaped_values_join:
  "escaped_values sep = [] \<Longrightarrow> escaped_values (join_parts sep pss) = concat (map escaped_values pss)"
  by (induction sep pss rule: join_parts.induct) (auto simp: escaped_values_append)

lemma subquery_values_join:
  "subquery_values sep = [] \<Longrightarrow> subquery_values (join_parts sep pss) = concat (map subquery_values pss)"
  by (induction sep pss rule: join_parts.induct) (auto simp: subquery_values_append)

lemma sum_list_ones: "sum_list (map (\<lambda>i. Suc 0) items) = length items"
  by (induction items) auto

lemma concat_singletons: "concat (map (\<lambda>i. [f i]) items) = map f items"
  by (induction items) auto

lemma concat_empties: "concat (map (\<lambda>i. []) items) = []"
  by (induction items) auto

lemma collectionEscape_counts:
  assumes "collectionEscape v = Inr ps"
  shows "key_count ps = 0" and "escaped_values ps = items_of v" and "subquery_values ps = []"
proof -
  from assms obtain items where v: "v = VArr items"
    and ps: "ps = join_parts [Text '', ''] (map (\<lambda>item. [Esc item]) items)"
    by (auto simp: collectionEscape_def split: val.splits)
  show "key_count ps = 0"
    by (simp add: ps key_count_join comp_def)
  show "escaped_values ps = items_of v"
    by (simp add: ps v escaped_values_join comp_def items_of_def concat_singletons)
  show "subquery_values ps = []"
    by (simp add: ps subquery_values_join comp_def concat_empties)
qed

lemma map_items_like_counts:
  assumes "map_items v (\<lambda>i. [K, Text t, Esc (f i)]) [Text sep] = Inr ps"
  shows "key_count ps = length (items_of v)" and "escaped_values ps = map f (items_of v)"
    and "subquery_values ps = []"
proof -
  from assms obtain items where v: "v = VArr items"
    and ps: "ps = [Text ''(''] @ join_parts [Text sep] (map (\<lambda>i. [K, Text t, Esc (f i)]) items) @ [Text '')'']"
    by (auto simp: map_items_def split: val.splits)
  show "key_count ps = length (items_of v)"
    by (simp add: ps v key_count_append key_count_join comp_def items_of_def sum_list_ones)
  show "escaped_values ps = map f (items_of v)"
    by (simp add: ps v escaped_values_append escaped_values_join comp_def items_of_def concat_singletons)
  show "subquery_values ps = []"
    by (simp add: ps subquery_values_append subquery_values_join comp_def concat_empties)
qed

lemma map_items_sub_counts:
  assumes "map_items v (\<lambda>i. [K, Text t, Sub i, Text u]) [Text sep] = Inr ps"
  shows "key_count ps = length (items_of v)" and "escaped_values ps = []"
    and "subquery_values ps = items_of v"
proof -
  from assms obtain items where v: "v = VArr items"
    and ps: "ps = [Text ''(''] @ join_parts [Text sep] (map (\<lambda>i. [K, Text t, Sub i, Text u]) items) @ [Text '')'']"
    by (auto simp: map_items_def split: val.splits)
  show "key_count ps = length (items_of v)"
    by (simp add: ps v key_count_append key_count_join comp_def items_of_def sum_list_ones)
  show "escaped_values ps = []"
    by (simp add: ps escaped_values_append escaped_values_join comp_def concat_empties)
  show "subquery_values ps = items_of v"
    by (simp add: ps v subquery_values_append subquery_values_join comp_def items_of_def concat_singletons)
qed

text \<open>
  C6 (as amended). For every kind of the table and every value on which its generator
  succeeds: the values handed to the escaping function are, once each and in order, the
  value of a comparison, the listed values of a membership kind, and the listed values
  wrapped in \<^verbatim>\<open>%\<close> of a pattern kind; \<^verbatim>\<open>exists\<close> escapes no value; the foundIn family
  escapes none and compiles each of its sub-queries once. The escaped key occurs once,
  except in \<^verbatim>\<open>containedInOrDoesNotExist\<close>, where it occurs twice, and in the five group
  kinds, where it occurs once per listed value.
\<close>

theorem fragment_occurrences:
  assumes "fragment x c v = Some (Inr ps)"
  shows "key_count ps =
           (if c = ContainedInOrDoesNotExist then 2
            else if c \<in> {ContainsEither, ContainsAll, FoundInEither, FoundInAll, NotFoundInEither}
            then length (items_of v)
            else 1)
    \<and> escaped_values ps =
           (if c \<in> {EqualTo, NotEqualTo, GreaterThan, GreaterThanOrEqualTo, LessThan, LessThanOrEqualTo}
            then [v]
            else if c \<in> {ContainedIn, NotContainedIn, ContainedInOrDoesNotExist} then items_of v
            else if c = StartsWith then [VStr (toStr x v @ ''%'')]
            else if c = EndsWith then [VStr (''%'' @ toStr x v)]
            else if c = Contains then [VStr (''%'' @ toStr x v @ ''%'')]
            else if c \<in> {ContainsEither, ContainsAll}
            then map (\<lambda>i. VStr (''%'' @ toStr x i @ ''%'')) (items_of v)
            else [])
    \<and> subquery_values ps =
           (if c \<in> {FoundIn, NotFoundIn} then [v]
            else if c \<in> {FoundInEither, FoundInAll, NotFoundInEither} then items_of v
            else [])"
proof (cases c)
  case ContainedIn
  with assms obtain ps' where "collectionEscape v = Inr ps'" and "ps = [K, Text '' IN (''] @ ps' @ [Text '')'']"
    by (auto simp: fragment_def split: sum.splits)
  with ContainedIn collectionEscape_counts [of v ps'] show ?thesis
    by (simp add: key_count_append escaped_values_append subquery_values_append)
next
  case NotContainedIn
  with assms obtain ps' where "collectionEscape v = Inr ps'" and "ps = [K, Text '' NOT IN (''] @ ps' @ [Text '')'']"
    by (auto simp: fragment_def split: sum.splits)
  with NotContainedIn collectionEscape_counts [of v ps'] show ?thesis
    by (simp add: key_count_append escaped_values_append subquery_values_append)
next
  case ContainedInOrDoesNotExist
  with assms obtain ps' where "collectionEscape v = Inr ps'"
    and "ps = [Text ''('', K, Text '' IS NULL OR '', K, Text '' IN (''] @ ps' @ [Text ''))'']"
    by (auto simp: fragment_def split: sum.splits)
  with ContainedInOrDoesNotExist collectionEscape_counts [of v ps'] show ?thesis
    by (simp add: key_count_append escaped_values_append subquery_values_append)
next
  case ContainsEither
  with assms map_items_like_counts [of v "'' LIKE ''" "\<lambda>i. VStr (''%'' @ toStr x i @ ''%'')" "'' OR ''" ps]
  show ?thesis by (simp add: fragment_def)
next
  case ContainsAll
  with assms map_items_like_counts [of v "'' LIKE ''" "\<lambda>i. VStr (''%'' @ toStr x i @ ''%'')" "'' AND ''" ps]
  show ?thesis by (simp add: fragment_def)
next
  case FoundInEither
  with assms map_items_sub_counts [of v "'' IN (''" "'')''" "'' OR ''" ps]
  show ?thesis by (simp add: fragment_def)
next
  case FoundInAll
  with assms map_items_sub_counts [of v "'' IN (''" "'')''" "'' AND ''" ps]
  show ?thesis by (simp add: fragment_def)
next
  case NotFoundInEither
  with assms map_items_sub_counts [of v "'' NOT IN (''" "'')''" "'' AND ''" ps]
  show ?thesis by (simp add: fragment_def)
qed (use assms in \<open>auto simp: fragment_def\<close>)

theorem fragment_occurrences_witness:
  "fragment sample_deps ContainsEither (VArr [VStr ''a'', VStr ''b''])
     = Some (Inr [Text ''('', K, Text '' LIKE '', Esc (VStr ''%a%''), Text '' OR '',
                  K, Text '' LIKE '', Esc (VStr ''%b%''), Text '')''])
   \<and> key_count [Text ''('', K, Text '' LIKE '', Esc (VStr ''%a%''), Text '' OR '',
                  K, Text '' LIKE '', Esc (VStr ''%b%''), Text '')''] = 2
   \<and> escaped_values [Text ''('', K, Text '' LIKE '', Esc (VStr ''%a%''), Text '' OR '',
                  K, Text '' LIKE '', Esc (VStr ''%b%''), Text '')''] = [VStr ''%a%'', VStr ''%b%'']"
proof -
  have f: "fragment sample_deps ContainsEither (VArr [VStr ''a'', VStr ''b''])
     = Some (Inr [Text ''('', K, Text '' LIKE '', Esc (VStr ''%a%''), Text '' OR '',
                  K, Text '' LIKE '', Esc (VStr ''%b%''), Text '')''])"
    by (simp add: fragment_def map_items_def)
  from fragment_occurrences [OF f] f show ?thesis
    by (simp add: items_of_def)
qed

text \<open>
  The claim as stated fails at \<^verbatim>\<open>containedInOrDoesNotExist\<close> with one listed value: the
  fragment holds the escaped key twice.
\<close>

theorem containedInOrDoesNotExist_key_twice:
  "fragment sample_deps ContainedInOrDoesNotExist (VArr [VNum 1])
     = Some (Inr [Text ''('', K, Text '' IS NULL OR '', K, Text '' IN ('', Esc (VNum 1), Text ''))''])
   \<and> key_count [Text ''('', K, Text '' IS NULL OR '', K, Text '' IN ('', Esc (VNum 1), Text ''))''] = 2
   \<and> parseConstraint sample_deps empty_store ''a'' ContainedInOrDoesNotExist (VArr [VNum 1])
     = Inr ''(`a` IS NULL OR `a` IN (1))''"
  by (simp add: fragment_def collectionEscape_def escapeKey_def regularEscape_def sample_deps_def
      sample_escapeKey_def string_of_int_def string_of_nat.simps)

section \<open>Compiled fragments\<close>







section \<open>Sub-queries\<close>

lemma getFindClause_find_head:
  "getFindClause x h src columns relations cm =
     (case parseConstraints x h (cm_entries cm) of
        Inl e \<Rightarrow> Inl e
      | Inr wheres \<Rightarrow> Inr (find_head x src columns relations @ '' WHERE '' @ join '' AND '' wheres))"
  by (simp add: find_head_def Let_def split: sum.splits)






lemma toSubquery_object_declared:
  "has (o_classType (objs q)) y
     \<Longrightarrow> toSubquery_object objs q y = (objs(q := (objs q)\<lparr>o_selection := [y]\<rparr>), None)"
  by (simp add: toSubquery_object_def select_object_def)

lemma foundIn_object_declared:
  assumes "has (o_classType (objs outer)) key" and "has (o_classType (objs q)) y"
  shows "foundIn_object x objs outer key y q =
           (let objs1 = objs(q := (objs q)\<lparr>o_selection := [y]\<rparr>)
            in (objs1(outer := (objs1 outer)
                  \<lparr>o_constraints := entries_set (o_constraints (objs1 outer)) key (Subquery InSubquery q)\<rparr>),
                None))"
proof -
  have "has (o_classType ((objs(q := (objs q)\<lparr>o_selection := [y]\<rparr>)) outer)) key"
    using assms(1) by auto
  then show ?thesis
    by (simp add: foundIn_object_def toSubquery_object_declared [of objs q y, OF assms(2)]
        set_object_def Let_def)
qed


lemma sample_mapper:
  "getColumnsFrom sample_deps = sample_getColumnsFrom"
  "getRelationsFrom sample_deps = (\<lambda>sel rels. filter (\<lambda>(a, r). a \<in> set sel) rels)"
  "constraintKey sample_deps = (\<lambda>cn key. key)"
  "InternalKeys_Id sample_deps = ''id''"
  by (simp_all add: sample_deps_def)

lemma sample_object_fields:
  "o_classType (new_Query_object x c) = c" "o_selection (new_Query_object x c) = []"
  "o_included (new_Query_object x c) = []" "o_constraints (new_Query_object x c) = []"
  by (simp_all add: new_Query_object_def)



text \<open>
  A declared key need not resolve to one column: in the sample, the relation key
  \<^verbatim>\<open>author\<close> resolves to the two columns of the relation.
\<close>

lemma relation_key_two_columns:
  "has sample_class ''author''
   \<and> getColumnsFrom sample_deps ''post'' [''author''] (def_relations sample_class)
       = [(''author.id'', ''author.id''), (''author.name'', ''author.name'')]"
  by (simp add: has_def sample_class_def sample_mapper sample_getColumnsFrom_def)

text \<open>
  The entry holds the object, not a copy: a query that is made its own sub-query never
  compiles, whatever the depth allowed.
\<close>

lemma foundIn_object_on_itself:
  "snd (foundIn_object sample_deps sample_objects 0 ''id'' ''name'' 0) = None
   \<and> subqueryEscape_object sample_deps empty_store
        (fst (foundIn_object sample_deps sample_objects 0 ''id'' ''name'' 0)) n 0 = None"
proof -
  have h1: "has (o_classType (sample_objects 0)) ''id''"
    and h2: "has (o_classType (sample_objects 0)) ''name''"
    by (simp_all add: sample_objects_def sample_object_fields has_def sample_class_def)
  define st where "st = fst (foundIn_object sample_deps sample_objects 0 ''id'' ''name'' 0)"
  note f = foundIn_object_declared [of sample_objects 0 "''id''" 0 "''name''" sample_deps, OF h1 h2]
  have sn: "snd (foundIn_object sample_deps sample_objects 0 ''id'' ''name'' 0) = None"
    by (simp add: f Let_def)
  have q: "st 0 = (new_Query_object sample_deps sample_class)
                   \<lparr>o_selection := [''name''], o_constraints := [(''id'', [Subquery InSubquery 0])]\<rparr>"
    unfolding st_def f
    by (simp add: Let_def sample_objects_def new_Query_object_def)
  have "subqueryEscape_object sample_deps empty_store st n 0 = None"
  proof (induction n)
    case 0
    then show ?case by simp
  next
    case (Suc n)
    then show ?case
      by (simp add: q Let_def sample_object_fields sample_mapper getConstraintsFrom_object_def
          flatten_entries_def)
  qed
  with sn show ?thesis
    unfolding st_def by simp
qed

end
